theory Spec2Isabelle
  imports Main "HOL-Library.Word"
begin

unbundle bit_operations_syntax

section \<open>Data model of sha3-256.c\<close>

text \<open>
  Bytes are \<open>uint8_t\<close>, lanes are \<open>uint64_t\<close>. The state is \<open>uint64_t *state[5]\<close>: five
  rows, each a separately allocated array of five lanes, indexed \<open>state[row][col]\<close>.
  The input buffer is a byte array of \<open>RATE_BYTES + CAPACITY_BYTES\<close> bytes.
  Array indices and byte counts never go negative in the program and are natural numbers.
\<close>

type_synonym byte = "8 word"
type_synonym lane = "64 word"
type_synonym state = "lane list list"

definition KECCAK_ROUNDS :: nat where
  "KECCAK_ROUNDS = 24"

definition RATE_BYTES :: nat where
  "RATE_BYTES = 1088 div 8"

definition CAPACITY_BYTES :: nat where
  "CAPACITY_BYTES = 512 div 8"

text \<open>The macro \<open>ROTL64(x, r) = ((x) << (r)) | ((x) >> (64 - (r)))\<close> on 64-bit lanes.\<close>

definition ROTL64 :: "lane \<Rightarrow> nat \<Rightarrow> lane" where
  "ROTL64 x r = push_bit r x OR drop_bit (64 - r) x"

definition round_constants :: "lane list" where
  "round_constants = [
     0x0000000000000001, 0x0000000000008082, 0x800000000000808a,
     0x8000000080008000, 0x000000000000808b, 0x0000000080000001,
     0x8000000080008081, 0x8000000000008009, 0x000000000000008a,
     0x0000000000000088, 0x0000000080008009, 0x000000008000000a,
     0x000000008000808b, 0x800000000000008b, 0x8000000000008089,
     0x8000000000008003, 0x8000000000008002, 0x8000000000000080,
     0x000000000000800a, 0x800000008000000a, 0x8000000080008081,
     0x8000000000008080, 0x0000000080000001, 0x8000000080008008]"

definition rho_rotations :: "nat list" where
  "rho_rotations = [
      1,  3,  6, 10, 15, 21, 28, 36, 45, 55,  2, 14,
     27, 41, 56,  8, 25, 43, 62, 18, 39, 61, 20, 44]"

definition pi_shifts :: "nat list" where
  "pi_shifts = [
     10, 7,  11, 17, 18, 3, 5,  16, 8,  21, 24, 4,
     15, 23, 19, 13, 12, 2, 20, 14, 22, 9,  6,  1]"

section \<open>Padding\<close>

text \<open>
  The zero-filling loop of \<open>pad_input\<close>,
  \<open>for (i = 1; i < q - 2; i++) input[input_len + i] = 0x00;\<close>,
  entered at \<open>i\<close>. It returns the buffer and the value of \<open>i\<close> when the loop is left,
  which the caller uses for the last write.
\<close>

function pad_zero_loop :: "byte list \<Rightarrow> nat \<Rightarrow> nat \<Rightarrow> nat \<Rightarrow> byte list \<times> nat" where
  "pad_zero_loop input input_len q i =
     (if i < q - 2
      then pad_zero_loop (input[input_len + i := 0x00]) input_len q (i + 1)
      else (input, i))"
  by pat_completeness auto
termination
  by (relation "measure (\<lambda>(input, input_len, q, i). q - 2 - i)") auto

declare pad_zero_loop.simps [simp del]

text \<open>
  \<open>void pad_input(uint8_t* input, int input_len)\<close>. The driver passes the byte count
  returned by \<open>fread\<close>, which is between 0 and \<open>RATE_BYTES\<close>.
\<close>

definition pad_input :: "byte list \<Rightarrow> nat \<Rightarrow> byte list" where
  "pad_input input input_len =
     (if input_len < RATE_BYTES then
        (let q = RATE_BYTES - (input_len mod RATE_BYTES) in
         if q = 1 then input[input_len := 0x86]
         else if q = 2 then (input[input_len := 0x06])[input_len + 1 := 0x80]
         else
           (let input = input[input_len := 0x06];
                (input, i) = pad_zero_loop input input_len q 1
            in input[input_len + i + 1 := 0x80]))
      else input)"

section \<open>Absorption\<close>

text \<open>
  The inner loop of \<open>absorb_input\<close> builds one lane from eight buffer bytes:
  \<open>for (j = 7; j >= 0; j--) { input_word <<= 8; input_word |= input[(i * 8) + j]; }\<close>.
\<close>

definition input_word_of :: "byte list \<Rightarrow> nat \<Rightarrow> lane" where
  "input_word_of input i =
     fold (\<lambda>j input_word. push_bit 8 input_word OR ucast (input ! ((i * 8) + j)))
       [7, 6, 5, 4, 3, 2, 1, 0] 0"

text \<open>\<open>void absorb_input(uint8_t *input, uint64_t *state[5])\<close>.\<close>

definition absorb_input :: "byte list \<Rightarrow> state \<Rightarrow> state" where
  "absorb_input input state =
     fold (\<lambda>i state.
             state[i div 5 := (state ! (i div 5))[i mod 5 :=
               state ! (i div 5) ! (i mod 5) XOR input_word_of input i]])
       [0..<RATE_BYTES div 8] state"

section \<open>The permutation\<close>

text \<open>
  Theta, first loop nest: the parity of each column is collected in the scratch row
  \<open>temp_row\<close>.
\<close>

definition theta_parity :: "state \<Rightarrow> lane list \<Rightarrow> lane list" where
  "theta_parity state temp_row =
     fold (\<lambda>i temp_row.
             fold (\<lambda>j temp_row. temp_row[i := temp_row ! i XOR state ! j ! i])
               [0..<5] (temp_row[i := 0]))
       [0..<5] temp_row"

text \<open>Theta, second loop nest: each column receives the sum of its neighbours' parities.\<close>

definition theta_columns :: "lane list \<Rightarrow> state \<Rightarrow> state" where
  "theta_columns temp_row state =
     fold (\<lambda>i state.
             (let temp_lane = temp_row ! ((i + 4) mod 5) XOR ROTL64 (temp_row ! ((i + 1) mod 5)) 1
              in fold (\<lambda>j state. state[j := (state ! j)[i := state ! j ! i XOR temp_lane]])
                   [0..<5] state))
       [0..<5] state"

fun theta :: "state \<times> lane list \<Rightarrow> state \<times> lane list" where
  "theta (state, temp_row) =
     (let temp_row = theta_parity state temp_row;
          state = theta_columns temp_row state
      in (state, temp_row))"

text \<open>
  Rho and pi, with the carried lane \<open>temp_lane\<close> and the scratch cell \<open>temp_row[0]\<close>.
  One iteration of \<open>for (i = 0; i < 24; i++)\<close>:
\<close>

fun rho_pi_step :: "nat \<Rightarrow> state \<times> lane list \<times> lane \<Rightarrow> state \<times> lane list \<times> lane" where
  "rho_pi_step i (state, temp_row, temp_lane) =
     (let j = pi_shifts ! i;
          temp_row = temp_row[0 := state ! (j div 5) ! (j mod 5)];
          state = state[j div 5 := (state ! (j div 5))[j mod 5 :=
                    ROTL64 temp_lane (rho_rotations ! i)]];
          temp_lane = temp_row ! 0
      in (state, temp_row, temp_lane))"

fun rho_pi :: "state \<times> lane list \<Rightarrow> state \<times> lane list" where
  "rho_pi (state, temp_row) =
     (let temp_lane = state ! 0 ! 1;
          (state, temp_row, temp_lane) = fold rho_pi_step [0..<24] (state, temp_row, temp_lane)
      in (state, temp_row))"

text \<open>
  Chi: each row is copied to \<open>temp_row\<close> and then rewritten from the copy.
  One iteration of the outer \<open>for (i = 0; i < 5; i++)\<close>:
\<close>

fun chi_row :: "nat \<Rightarrow> state \<times> lane list \<Rightarrow> state \<times> lane list" where
  "chi_row i (state, temp_row) =
     (let temp_row = fold (\<lambda>j temp_row. temp_row[j := state ! i ! j]) [0..<5] temp_row;
          state = fold (\<lambda>j state. state[i := (state ! i)[j :=
                    state ! i ! j XOR
                      (NOT (temp_row ! ((j + 1) mod 5)) AND temp_row ! ((j + 2) mod 5))]])
                    [0..<5] state
      in (state, temp_row))"

fun chi :: "state \<times> lane list \<Rightarrow> state \<times> lane list" where
  "chi (state, temp_row) = fold chi_row [0..<5] (state, temp_row)"

text \<open>Iota: \<open>state[0][0] ^= round_constants[round]\<close>.\<close>

fun iota :: "nat \<Rightarrow> state \<times> lane list \<Rightarrow> state \<times> lane list" where
  "iota round (state, temp_row) =
     (state[0 := (state ! 0)[0 := state ! 0 ! 0 XOR round_constants ! round]], temp_row)"

section \<open>Formatted output\<close>

text \<open>
  The program writes to standard output with \<open>printf\<close>. Output is modelled as the string
  of characters written. The conversions used by the program are \<open>%d\<close> on small
  non-negative integers, \<open>%02X\<close> on bytes, and \<open>%lx\<close> and \<open>%016lx\<close> on
  \<open>uint64_t\<close> (64-bit \<open>unsigned long\<close>).
\<close>

definition newline :: char where
  "newline = CHR 0x0A"

fun hex_digits :: "nat \<Rightarrow> nat list" where
  "hex_digits n = (if n < 16 then [n] else hex_digits (n div 16) @ [n mod 16])"

fun dec_digits :: "nat \<Rightarrow> nat list" where
  "dec_digits n = (if n < 10 then [n] else dec_digits (n div 10) @ [n mod 10])"

declare hex_digits.simps [simp del] dec_digits.simps [simp del]

definition zero_pad :: "nat \<Rightarrow> string \<Rightarrow> string" where
  "zero_pad width s = replicate (width - length s) (CHR ''0'') @ s"

text \<open>\<open>%d\<close>\<close>

definition printf_d :: "nat \<Rightarrow> string" where
  "printf_d n = map (\<lambda>d. ''0123456789'' ! d) (dec_digits n)"

text \<open>\<open>%lx\<close>: lower-case hexadecimal, no leading zeros, at least one digit.\<close>

definition printf_lx :: "lane \<Rightarrow> string" where
  "printf_lx x = map (\<lambda>d. ''0123456789abcdef'' ! d) (hex_digits (unat x))"

text \<open>\<open>%016lx\<close>\<close>

definition printf_016lx :: "lane \<Rightarrow> string" where
  "printf_016lx x = zero_pad 16 (printf_lx x)"

text \<open>\<open>%02X\<close> on a byte: upper-case hexadecimal, two digits.\<close>

definition printf_02X :: "byte \<Rightarrow> string" where
  "printf_02X b = zero_pad 2 (map (\<lambda>d. ''0123456789ABCDEF'' ! d) (hex_digits (unat b)))"

text \<open>The byte \<open>(uint8_t)(x >> (k * 8))\<close> of a lane.\<close>

definition lane_byte :: "lane \<Rightarrow> nat \<Rightarrow> byte" where
  "lane_byte x k = ucast (drop_bit (k * 8) x)"

text \<open>\<open>void print_state(uint64_t *state[5])\<close> (the name is taken in Isabelle, hence the suffix).\<close>

definition print_state_bytes :: "state \<Rightarrow> string" where
  "print_state_bytes state =
     concat (map (\<lambda>i.
       concat (map (\<lambda>j.
         concat (map (\<lambda>k. printf_02X (lane_byte (state ! i ! j) k) @ '' '') [0..<8])
         @ (if (i + j) mod 2 = 1 then [newline] else []))
       [0..<5]))
     [0..<5])
     @ [newline]"

text \<open>\<open>void print_input(uint8_t *input)\<close>\<close>

definition print_input :: "byte list \<Rightarrow> string" where
  "print_input input =
     concat (map (\<lambda>i.
       printf_02X (input ! i) @ '' ''
       @ (if (i + 1) mod 16 = 0 then [newline] else []))
     [0..<RATE_BYTES + CAPACITY_BYTES])
     @ [newline]"

text \<open>\<open>void print_lanes(uint64_t *lanes[5])\<close>\<close>

definition print_lanes :: "state \<Rightarrow> string" where
  "print_lanes lanes =
     concat (map (\<lambda>i.
       concat (map (\<lambda>j.
         ''  ['' @ printf_d j @ '', '' @ printf_d i @ ''] = '' @ printf_016lx (lanes ! i ! j)
         @ [newline])
       [0..<5]))
     [0..<5])"

section \<open>The permutation, continued: rounds\<close>

text \<open>
  The body of \<open>for (round = 0; round < KECCAK_ROUNDS; round++)\<close> in \<open>keccak\<close>. It works
  on the state and on the scratch row, and appends to the output when \<open>verbose\<close> is set.
\<close>

fun keccak_round ::
  "bool \<Rightarrow> nat \<Rightarrow> (state \<times> lane list) \<times> string \<Rightarrow> (state \<times> lane list) \<times> string" where
  "keccak_round verbose round ((state, temp_row), out) =
     (let out = out @ (if verbose then ''Round #'' @ printf_d round @ [newline] else []);
          (state, temp_row) = theta (state, temp_row);
          out = out @ (if verbose then ''After Theta'' @ [newline] @ print_state_bytes state else []);
          (state, temp_row) = rho_pi (state, temp_row);
          out = out @ (if verbose then ''After Rho and Pi'' @ [newline] @ print_state_bytes state
                       else []);
          (state, temp_row) = chi (state, temp_row);
          out = out @ (if verbose then ''After Chi'' @ [newline] @ print_state_bytes state else []);
          (state, temp_row) = iota round (state, temp_row);
          out = out @ (if verbose then ''After Iota'' @ [newline] @ print_state_bytes state else [])
      in ((state, temp_row), out))"

function keccak_loop ::
  "bool \<Rightarrow> nat \<Rightarrow> (state \<times> lane list) \<times> string \<Rightarrow> (state \<times> lane list) \<times> string" where
  "keccak_loop verbose round s =
     (if round < KECCAK_ROUNDS
      then keccak_loop verbose (round + 1) (keccak_round verbose round s)
      else s)"
  by pat_completeness auto
termination
  by (relation "measure (\<lambda>(verbose, round, s). KECCAK_ROUNDS - round)") auto

declare keccak_loop.simps [simp del]

text \<open>
  \<open>void keccak(uint64_t *state[5], int verbose)\<close>. The scratch row is allocated with
  \<open>calloc(5, sizeof(uint64_t))\<close>. The result is the new state and the output written.
\<close>

definition keccak :: "state \<Rightarrow> bool \<Rightarrow> state \<times> string" where
  "keccak state verbose =
     (let temp_row = replicate 5 0;
          ((state, temp_row), out) = keccak_loop verbose 0 ((state, temp_row), [])
      in (state, out))"

section \<open>The driver\<close>

text \<open>
  The open file is the list of bytes not yet read. \<open>fread(input, 1, n, infile)\<close> copies up
  to \<open>n\<close> bytes to the start of the buffer and returns the buffer, the number of bytes
  read and the rest of the file. \<open>memset(input, c, n)\<close> overwrites the first \<open>n\<close> bytes.
\<close>

definition fread :: "byte list \<Rightarrow> nat \<Rightarrow> byte list \<Rightarrow> byte list \<times> nat \<times> byte list" where
  "fread input n infile =
     (let bytes_read = min n (length infile)
      in (take bytes_read infile @ drop bytes_read input, bytes_read, drop bytes_read infile))"

definition memset :: "byte list \<Rightarrow> byte \<Rightarrow> nat \<Rightarrow> byte list" where
  "memset input c n = replicate n c @ drop n input"

text \<open>
  The \<open>while(1)\<close> loop of \<open>main\<close>, entered with the first block already read into
  \<open>input\<close>. It returns the final state and the output written.
\<close>

function main_loop ::
  "bool \<Rightarrow> byte list \<Rightarrow> byte list \<Rightarrow> nat \<Rightarrow> state \<Rightarrow> string \<Rightarrow> state \<times> string" where
  "main_loop verbose infile input bytes_read state out =
     (let out = out @ (if verbose
                       then ''About to absorb data'' @ [newline]
                            @ ''State (in bytes)'' @ [newline] @ print_state_bytes state
                       else []);
          input = pad_input input bytes_read;
          out = out @ (if verbose
                       then ''Data to be absorbed'' @ [newline] @ print_input input
                       else []);
          state = absorb_input input state;
          out = out @ (if verbose
                       then ''XOR'' @ [CHR 0x27] @ ''d state (in bytes)'' @ [newline]
                            @ print_state_bytes state
                            @ ''XOR'' @ [CHR 0x27] @ ''d state (as lanes of integers)''
                            @ [newline] @ print_lanes state
                       else []);
          (state, keccak_out) = keccak state verbose;
          out = out @ keccak_out
      in if bytes_read = RATE_BYTES
         then (let input = memset input 0 (RATE_BYTES + CAPACITY_BYTES);
                   (input, bytes_read, infile) = fread input RATE_BYTES infile
               in main_loop verbose infile input bytes_read state out)
         else (state, out))"
  by pat_completeness auto
termination
  by (relation "measure (\<lambda>(verbose, infile, input, bytes_read, state, out).
        2 * length infile + (if bytes_read = RATE_BYTES then 1 else 0))")
     (auto simp: fread_def RATE_BYTES_def Let_def)

declare main_loop.simps [simp del]

text \<open>
  Lines 56 to 88 of \<open>main\<close>: the buffer is allocated zeroed, the first block is read,
  and the loop runs from the given state (\<open>main\<close> starts from the all-zero state).
\<close>

definition sponge :: "bool \<Rightarrow> byte list \<Rightarrow> state \<Rightarrow> state \<times> string" where
  "sponge verbose infile state =
     (let input = replicate (RATE_BYTES + CAPACITY_BYTES) 0;
          (input, bytes_read, infile) = fread input RATE_BYTES infile
      in main_loop verbose infile input bytes_read state [])"

text \<open>
  Lines 97 to 104 of \<open>main\<close>, under the source comment
  \<open>prints first 256 bits of state as bytes in two rows\<close>.
\<close>

definition print_hash_val :: "state \<Rightarrow> string" where
  "print_hash_val state =
     concat (map (\<lambda>i.
       concat (map (\<lambda>j. printf_02X (lane_byte (state ! 0 ! i) j) @ '' '') [0..<8])
       @ (if (i + 1) mod 2 = 0 then [newline] else []))
     [0..<4])"

text \<open>
  Lines 107 and 108 of \<open>main\<close>, under the source comment \<open>print the result\<close>:
  \<open>printf("0x%lx%lx%lx%lx\n", state[0][0], state[0][1], state[0][2], state[0][4]);\<close>
\<close>

definition print_result :: "state \<Rightarrow> string" where
  "print_result state =
     ''0x'' @ printf_lx (state ! 0 ! 0) @ printf_lx (state ! 0 ! 1)
     @ printf_lx (state ! 0 ! 2) @ printf_lx (state ! 0 ! 4) @ [newline]"

text \<open>
  \<open>int main(int argc, char** argv)\<close>: \<open>argv\<close> is the list of arguments, \<open>fopen\<close> maps a
  file name to the contents of the file when it can be opened. The result is the exit
  status and the output written.
\<close>

definition main :: "(string \<Rightarrow> byte list option) \<Rightarrow> string list \<Rightarrow> int \<times> string" where
  "main fopen argv =
     (if length argv < 2 then (-1, ''USAGE: ./sha3 <file_to_hash>'' @ [newline])
      else case fopen (argv ! 1) of
        None \<Rightarrow> (-1, ''ERROR: could not read file '' @ argv ! 1 @ [newline])
      | Some infile \<Rightarrow>
         (let verbose = (length argv > 2 \<and> take 2 (argv ! 2) = ''-v'');
              state = replicate 5 (replicate 5 0);
              (state, out) = sponge verbose infile state;
              out = out @ (if verbose
                           then ''After permutation'' @ [newline] @ print_state_bytes state
                                @ ''state (as lanes of integers)'' @ [newline]
                                @ print_lanes state
                                @ ''Hash val is'' @ [newline]
                                @ print_hash_val state
                           else []);
              out = out @ print_result state
          in (0, out)))"

section \<open>Definitions used to state the properties\<close>

text \<open>
  The shape of the state that \<open>main\<close> allocates: five rows of five lanes.
\<close>

definition state_shape :: "state \<Rightarrow> bool" where
  "state_shape state \<longleftrightarrow> length state = 5 \<and> (\<forall>row<5. length (state ! row) = 5)"

text \<open>
  The specification's reading of eight buffer bytes as one lane: the bytes at offsets
  \<open>off\<close> to \<open>off + 7\<close> as a 64-bit integer in little-endian order, the byte at
  \<open>off\<close> least significant.
\<close>

definition lane_of_bytes_le :: "byte list \<Rightarrow> nat \<Rightarrow> lane" where
  "lane_of_bytes_le input off =
     word_of_nat (sum_list (map (\<lambda>k. unat (input ! (off + k)) * 256 ^ k) [0..<8]))"

text \<open>One round on the state and the scratch row, without the diagnostic output.\<close>

definition keccak_f_round :: "nat \<Rightarrow> state \<times> lane list \<Rightarrow> state \<times> lane list" where
  "keccak_f_round round st = iota round (chi (rho_pi (theta st)))"

text \<open>
  The specification's treatment of full blocks: each of the first \<open>k\<close> blocks of 136
  bytes is absorbed with no padding and permuted.
\<close>

fun absorb_full_blocks :: "nat \<Rightarrow> byte list \<Rightarrow> state \<Rightarrow> state" where
  "absorb_full_blocks 0 msg state = state"
| "absorb_full_blocks (Suc k) msg state =
     absorb_full_blocks k (drop 136 msg)
       (fst (keccak (absorb_input (take 136 msg @ replicate 64 0) state) False))"

text \<open>The fully padded empty block: padding applied with \<open>L = 0\<close> to a zeroed buffer.\<close>

definition padded_empty_block :: "byte list" where
  "padded_empty_block = 0x06 # replicate 134 0 @ [0x80] @ replicate 64 0"

text \<open>
  The specification's rendering of the digest: the first four lanes of the state,
  positions (0,0) to (0,3), each as eight bytes in little-endian order, every byte as two
  lower-case hexadecimal digits.
\<close>

definition digest_bytes :: "state \<Rightarrow> byte list" where
  "digest_bytes state = concat (map (\<lambda>i. map (lane_byte (state ! 0 ! i)) [0..<8]) [0..<4])"

definition hex_of_byte :: "byte \<Rightarrow> string" where
  "hex_of_byte b = zero_pad 2 (map (\<lambda>d. ''0123456789abcdef'' ! d) (hex_digits (unat b)))"

definition digest_hex :: "state \<Rightarrow> string" where
  "digest_hex state = concat (map hex_of_byte (digest_bytes state))"

section \<open>Properties of the padding\<close>

lemma nth_list_update_if:
  "xs[i := x] ! j = (if i = j \<and> j < length xs then x else xs ! j)"
  by (cases "i < length xs") (auto simp: nth_list_update list_update_beyond)


lemma pad_zero_loop_snd: "i \<le> q - 2 \<Longrightarrow> snd (pad_zero_loop input L q i) = q - 2"
proof (induction input L q i rule: pad_zero_loop.induct)
  case (1 input L q i)
  show ?case
  proof (cases "i < q - 2")
    case True
    with "1.IH" show ?thesis by (subst pad_zero_loop.simps) simp
  next
    case False
    with "1.prems" show ?thesis by (subst pad_zero_loop.simps) simp
  qed
qed

lemma pad_zero_loop_length: "length (fst (pad_zero_loop input L q i)) = length input"
proof (induction input L q i rule: pad_zero_loop.induct)
  case (1 input L q i)
  then show ?case by (subst pad_zero_loop.simps) simp
qed

lemma pad_zero_loop_nth:
  "fst (pad_zero_loop input L q i) ! k =
     (if L + i \<le> k \<and> k < L + (q - 2) \<and> k < length input then 0 else input ! k)"
proof (induction input L q i rule: pad_zero_loop.induct)
  case (1 input L q i)
  show ?case
  proof (cases "i < q - 2")
    case True
    have "fst (pad_zero_loop input L q i) ! k
            = fst (pad_zero_loop (input[L + i := 0]) L q (i + 1)) ! k"
      using True by (subst pad_zero_loop.simps) simp
    also have "\<dots> = (if L + (i + 1) \<le> k \<and> k < L + (q - 2) \<and> k < length input
                      then 0 else input[L + i := 0] ! k)"
      using "1.IH" [OF True] by simp
    also have "\<dots> = (if L + i \<le> k \<and> k < L + (q - 2) \<and> k < length input
                      then 0 else input ! k)"
      using True by (auto simp: nth_list_update_if)
    finally show ?thesis .
  next
    case False
    then show ?thesis by (subst pad_zero_loop.simps) auto
  qed
qed

lemma pad_input_nth:
  assumes "L < 136"
  shows "pad_input input L ! k =
     (if k < length input \<and> L \<le> k \<and> k \<le> 135 then
        (if L = 135 then 0x86
         else if k = L then 0x06
         else if k = 135 then 0x80
         else if k = 134 then input ! k
         else 0)
      else input ! k)"
proof -
  consider "L = 135" | "L = 134" | "L < 134" using assms by linarith
  then show ?thesis
  proof cases
    case 1
    then show ?thesis
      by (auto simp: pad_input_def RATE_BYTES_def nth_list_update_if)
  next
    case 2
    then show ?thesis
      by (auto simp: pad_input_def RATE_BYTES_def nth_list_update_if)
  next
    case 3
    define q where "q = 136 - L"
    define P where "P = pad_zero_loop (input[L := 0x06]) L q 1"
    have q: "2 < q" "1 \<le> q - 2" "L + (q - 2) = 134" using 3 by (simp_all add: q_def)
    have i: "snd P = q - 2" unfolding P_def using q(2) by (rule pad_zero_loop_snd)
    have "pad_input input L = (fst P)[L + snd P + 1 := 0x80]"
    proof -
      have "136 - L \<noteq> Suc 0" "136 - L \<noteq> 2" "L < 136" using 3 by arith+
      then show ?thesis
        by (simp add: pad_input_def RATE_BYTES_def Let_def case_prod_beta q_def P_def)
    qed
    moreover have "L + snd P + 1 = 135"
      using i q(3) q(1) by simp
    ultimately have pad: "pad_input input L = (fst P)[135 := 0x80]"
      by simp
    have len: "length (fst P) = length input"
      by (simp add: P_def pad_zero_loop_length)
    have nth: "fst P ! k = (if L + 1 \<le> k \<and> k < 134 \<and> k < length input then 0
                            else input[L := 0x06] ! k)"
      unfolding P_def using q(3) by (simp add: pad_zero_loop_nth)
    show ?thesis
      using 3 by (auto simp: pad len nth nth_list_update_if)
  qed
qed


text \<open>
  C4: for \<open>0 \<le> L \<le> 135\<close> and a block whose bytes at offsets \<open>L\<close> to 135 are zero,
  \<open>pad_input\<close> with \<open>input_len = L\<close> and \<open>q = 136 - L\<close> leaves \<open>0x86\<close> at offset
  \<open>L\<close> when \<open>q = 1\<close>; \<open>0x06\<close> at \<open>L\<close> and \<open>0x80\<close> at \<open>L + 1\<close> when \<open>q = 2\<close>;
  and, when \<open>q > 2\<close>, \<open>0x06\<close> at \<open>L\<close>, zero bytes at \<open>L + 1\<close> to \<open>L + q - 2\<close> and
  \<open>0x80\<close> at \<open>L + q - 1\<close>, which is offset 135.
\<close>

theorem pad_input_layout:
  assumes "L \<le> 135" and "136 \<le> length input"
    and "\<forall>k. L \<le> k \<and> k \<le> 135 \<longrightarrow> input ! k = 0"
    and "q = 136 - L"
  shows "(q = 1 \<longrightarrow> pad_input input L ! L = 0x86)
       \<and> (q = 2 \<longrightarrow> pad_input input L ! L = 0x06 \<and> pad_input input L ! (L + 1) = 0x80)
       \<and> (q > 2 \<longrightarrow> pad_input input L ! L = 0x06
              \<and> (\<forall>k. L + 1 \<le> k \<and> k \<le> L + q - 2 \<longrightarrow> pad_input input L ! k = 0)
              \<and> pad_input input L ! (L + q - 1) = 0x80
              \<and> L + q - 1 = 135)"
proof -
  have L: "L < 136" using assms(1) by simp
  show ?thesis
    using assms by (auto simp: pad_input_nth [OF L])
qed

theorem pad_input_layout_witness:
  "(100 :: nat) \<le> 135 \<and> 136 \<le> length (replicate 200 (0 :: byte))
   \<and> replicate 200 (0 :: byte) ! 117 = 0
   \<and> pad_input (replicate 200 0) 100 ! 100 = 0x06
   \<and> pad_input (replicate 200 0) 100 ! 117 = 0
   \<and> pad_input (replicate 200 0) 100 ! 134 = 0
   \<and> pad_input (replicate 200 0) 100 ! 135 = 0x80"
proof -
  have zeros: "\<forall>k. 100 \<le> k \<and> k \<le> 135 \<longrightarrow> replicate 200 (0 :: byte) ! k = 0"
    by simp
  have "pad_input (replicate 200 0) 100 ! 100 = 0x06
      \<and> (\<forall>k. 100 + 1 \<le> k \<and> k \<le> 100 + 36 - 2 \<longrightarrow> pad_input (replicate 200 0) 100 ! k = 0)
      \<and> pad_input (replicate 200 0) 100 ! (100 + 36 - 1) = 0x80"
    using pad_input_layout [of 100 "replicate 200 0" 36] zeros by simp
  then have "pad_input (replicate 200 0) 100 ! 100 = 0x06"
    and "pad_input (replicate 200 0) 100 ! 117 = 0"
    and "pad_input (replicate 200 0) 100 ! 134 = 0"
    and "pad_input (replicate 200 0) 100 ! 135 = 0x80"
    by simp_all
  then show ?thesis by simp
qed

text \<open>
  C10: for \<open>0 \<le> input_len \<le> 136\<close>, \<open>pad_input\<close> changes no byte below offset
  \<open>input_len\<close> and none above offset 135, and keeps the length of the buffer; for
  \<open>input_len = 136\<close> the buffer is returned as it was.
\<close>

theorem pad_input_frame:
  assumes "input_len \<le> 136"
  shows "(\<forall>k. k < input_len \<or> 135 < k \<longrightarrow> pad_input input input_len ! k = input ! k)
       \<and> length (pad_input input input_len) = length input
       \<and> (input_len = 136 \<longrightarrow> pad_input input input_len = input)"
proof (cases "input_len = 136")
  case True
  then show ?thesis by (simp add: pad_input_def RATE_BYTES_def)
next
  case False
  then have L: "input_len < 136" using assms by simp
  have "length (pad_input input input_len) = length input"
    using L by (auto simp: pad_input_def RATE_BYTES_def Let_def case_prod_beta pad_zero_loop_length)
  then show ?thesis
    using L by (auto simp: pad_input_nth [OF L])
qed

theorem pad_input_frame_witness:
  "(3 :: nat) \<le> 136
   \<and> pad_input (replicate 200 0x61) 3 ! 2 = 0x61
   \<and> pad_input (replicate 200 0x61) 3 ! 136 = 0x61
   \<and> length (pad_input (replicate 200 0x61) 3) = 200
   \<and> pad_input (replicate 200 0x61) 136 = replicate 200 0x61"
proof -
  have "\<forall>k. k < 3 \<or> 135 < k \<longrightarrow>
          pad_input (replicate 200 0x61) 3 ! k = replicate 200 0x61 ! k"
    and len: "length (pad_input (replicate 200 0x61) 3) = 200"
    using pad_input_frame [of 3 "replicate 200 0x61"] by simp_all
  then have "pad_input (replicate 200 0x61) 3 ! 2 = replicate 200 0x61 ! 2"
    and "pad_input (replicate 200 0x61) 3 ! 136 = replicate 200 0x61 ! 136"
    by simp_all
  moreover have "pad_input (replicate 200 0x61) 136 = replicate 200 0x61"
    using pad_input_frame [of 136 "replicate 200 0x61"] by simp
  ultimately show ?thesis using len by simp
qed

section \<open>Properties of the absorption\<close>

lemma shift_or_byte: "push_bit 8 (w :: lane) OR ucast (b :: byte) = w * 256 + ucast b"
proof -
  have "push_bit 8 w + ucast b = push_bit 8 w OR ucast b"
    by (rule disjunctive_add) (auto simp: bit_simps dest: bit_imp_le_length)
  then show ?thesis by (simp add: push_bit_eq_mult)
qed

lemma upt8: "[0..<8] = [0,1,2,3,4,5,6,7]" by (simp add: upt_rec)

lemma input_word_of_le: "input_word_of input i = lane_of_bytes_le input (8 * i)"
  by (simp add: input_word_of_def lane_of_bytes_le_def shift_or_byte upt8 algebra_simps)

lemma absorb_frame:
  assumes "\<forall>k<n. (k div 5, k mod 5) \<noteq> (r, c)"
  shows "fold (\<lambda>i state. state[i div 5 := (state ! (i div 5))[i mod 5 :=
               state ! (i div 5) ! (i mod 5) XOR w i]]) [0..<n] s ! r ! c = s ! r ! c"
  using assms
proof (induction n)
  case 0
  then show ?case by simp
next
  case (Suc n)
  then have "(n div 5, n mod 5) \<noteq> (r, c)" by simp
  with Suc show ?case
    by (auto simp: nth_list_update_if)
qed

lemma absorb_shape:
  assumes "state_shape s"
  shows "state_shape (fold (\<lambda>i state. state[i div 5 := (state ! (i div 5))[i mod 5 :=
               state ! (i div 5) ! (i mod 5) XOR w i]]) [0..<n] s)"
  using assms
  by (induction n) (auto simp: state_shape_def nth_list_update_if)

lemma absorb_lane:
  assumes "state_shape s" and "n \<le> 25" and "i < n"
  shows "fold (\<lambda>i state. state[i div 5 := (state ! (i div 5))[i mod 5 :=
               state ! (i div 5) ! (i mod 5) XOR w i]]) [0..<n] s ! (i div 5) ! (i mod 5)
         = s ! (i div 5) ! (i mod 5) XOR w i"
  using assms
proof (induction n)
  case 0
  then show ?case by simp
next
  case (Suc n)
  let ?f = "\<lambda>i state. state[i div 5 := (state ! (i div 5))[i mod 5 :=
               state ! (i div 5) ! (i mod 5) XOR w i]]"
  have shape: "state_shape (fold ?f [0..<n] s)"
    using Suc.prems(1) by (rule absorb_shape)
  show ?case
  proof (cases "i = n")
    case True
    have "\<forall>k<n. (k div 5, k mod 5) \<noteq> (n div 5, n mod 5)"
      by (metis div_mult_mod_eq nat_neq_iff prod.inject)
    then have "fold ?f [0..<n] s ! (n div 5) ! (n mod 5) = s ! (n div 5) ! (n mod 5)"
      by (rule absorb_frame)
    moreover have "n div 5 < 5" using Suc.prems(2) by simp
    ultimately show ?thesis
      using True shape by (simp add: state_shape_def)
  next
    case False
    then have "i < n" using Suc.prems(3) by simp
    moreover have "(n div 5, n mod 5) \<noteq> (i div 5, i mod 5)"
      using False by (metis div_mult_mod_eq prod.inject)
    ultimately show ?thesis
      using Suc by (auto simp: nth_list_update_if)
  qed
qed


text \<open>
  C6: for a block of at least 136 bytes and a state of five rows of five lanes,
  \<open>absorb_input\<close> XORs, for each lane index \<open>i\<close> from 0 to 16, the eight bytes at
  offsets \<open>8i\<close> to \<open>8i + 7\<close>, read as a little-endian 64-bit integer, into the lane at
  row \<open>i div 5\<close> and column \<open>i mod 5\<close>.
\<close>

theorem absorb_input_rate_lanes:
  assumes "length state = 5" and "\<forall>row<5. length (state ! row) = 5"
    and "136 \<le> length input" and "i \<le> 16"
  shows "absorb_input input state ! (i div 5) ! (i mod 5)
         = state ! (i div 5) ! (i mod 5) XOR lane_of_bytes_le input (8 * i)"
proof -
  have "state_shape state" using assms(1,2) by (simp add: state_shape_def)
  moreover have "i < 17" using assms(4) by simp
  ultimately show ?thesis
    unfolding absorb_input_def RATE_BYTES_def
    by (simp add: absorb_lane input_word_of_le)
qed

theorem absorb_input_rate_lanes_witness:
  "length (replicate 5 (replicate 5 (0 :: lane))) = 5
   \<and> length (replicate 5 (replicate 5 (0 :: lane)) ! 1) = 5
   \<and> 136 \<le> length (replicate 136 (0x01 :: byte)) \<and> (7 :: nat) \<le> 16
   \<and> absorb_input (replicate 136 0x01) (replicate 5 (replicate 5 0)) ! 1 ! 2
       = 0x0101010101010101"
proof -
  have a: "length (replicate 5 (replicate 5 (0 :: lane))) = 5" by simp
  have b: "\<forall>row<5. length (replicate 5 (replicate 5 (0 :: lane)) ! row) = 5" by simp
  have c: "136 \<le> length (replicate 136 (0x01 :: byte))" by simp
  have d: "(7 :: nat) \<le> 16" by simp
  show ?thesis
    using a c d absorb_input_rate_lanes [OF a b c d]
    by (simp add: lane_of_bytes_le_def upt8)
qed

text \<open>
  C7: \<open>absorb_input\<close> leaves the capacity lanes, those with lane index 17 to 24 in
  absorption order, unchanged, for every block and every state.
\<close>

theorem absorb_input_capacity_unchanged:
  assumes "17 \<le> i" and "i \<le> 24"
  shows "absorb_input input state ! (i div 5) ! (i mod 5) = state ! (i div 5) ! (i mod 5)"
proof -
  have "\<forall>k<17. (k div 5, k mod 5) \<noteq> (i div 5, i mod 5)"
    using assms(1) by (metis div_mult_mod_eq not_le prod.inject)
  then show ?thesis
    unfolding absorb_input_def RATE_BYTES_def
    by (simp add: absorb_frame)
qed

theorem absorb_input_capacity_unchanged_witness:
  "(17 :: nat) \<le> 22 \<and> (22 :: nat) \<le> 24
   \<and> absorb_input (replicate 200 0xFF) (replicate 5 (replicate 5 0x55)) ! (22 div 5) ! (22 mod 5)
       = replicate 5 (replicate 5 0x55) ! (22 div 5) ! (22 mod 5)"
  using absorb_input_capacity_unchanged [of 22 "replicate 200 0xFF" "replicate 5 (replicate 5 0x55)"]
  by simp


section \<open>Properties of the permutation\<close>

lemma keccak_round_lanes:
  "fst (keccak_round verbose round (st, out)) = keccak_f_round round st"
  by (cases st)
     (simp add: keccak_f_round_def Let_def case_prod_beta
        del: theta.simps rho_pi.simps chi.simps iota.simps)

lemma keccak_round_quiet:
  "snd (keccak_round False round (st, out)) = out"
  by (cases st)
     (simp add: Let_def case_prod_beta del: theta.simps rho_pi.simps chi.simps iota.simps)

lemma keccak_loop_fold:
  "round \<le> KECCAK_ROUNDS \<Longrightarrow>
     keccak_loop verbose round s = fold (keccak_round verbose) [round..<KECCAK_ROUNDS] s"
proof (induction verbose round s rule: keccak_loop.induct)
  case (1 verbose round s)
  show ?case
  proof (cases "round < KECCAK_ROUNDS")
    case True
    then have "keccak_loop verbose round s
                 = keccak_loop verbose (round + 1) (keccak_round verbose round s)"
      by (subst keccak_loop.simps) simp
    also have "\<dots> = fold (keccak_round verbose) [round + 1..<KECCAK_ROUNDS]
                        (keccak_round verbose round s)"
      using True by (intro "1.IH") simp_all
    also have "\<dots> = fold (keccak_round verbose) [round..<KECCAK_ROUNDS] s"
      using True by (simp add: upt_conv_Cons)
    finally show ?thesis .
  next
    case False
    then show ?thesis by (subst keccak_loop.simps) simp
  qed
qed

lemma fold_keccak_round_lanes:
  "fst (fold (keccak_round verbose) rounds (st, out)) = fold keccak_f_round rounds st"
proof (induction rounds arbitrary: st out)
  case Nil
  then show ?case by simp
next
  case (Cons round rounds)
  obtain st' out' where step: "keccak_round verbose round (st, out) = (st', out')"
    by (cases "keccak_round verbose round (st, out)")
  then have "st' = keccak_f_round round st"
    using keccak_round_lanes [of verbose round st out] by simp
  with step Cons.IH [of st' out'] show ?case by simp
qed

lemma fold_keccak_round_quiet:
  "snd (fold (keccak_round False) rounds (st, out)) = out"
proof (induction rounds arbitrary: st out)
  case Nil
  then show ?case by simp
next
  case (Cons round rounds)
  obtain st' out' where step: "keccak_round False round (st, out) = (st', out')"
    by (cases "keccak_round False round (st, out)")
  then have "out' = out"
    using keccak_round_quiet [of round st out] by simp
  with step Cons.IH [of st' out'] show ?case by simp
qed

lemma keccak_lanes:
  "fst (keccak state verbose)
     = fst (fold keccak_f_round [0..<KECCAK_ROUNDS] (state, replicate 5 0))"
  by (simp add: keccak_def Let_def case_prod_beta keccak_loop_fold fold_keccak_round_lanes)

lemma keccak_quiet: "snd (keccak state False) = []"
  by (simp add: keccak_def Let_def case_prod_beta keccak_loop_fold fold_keccak_round_quiet)

lemma keccak_verbose_lanes: "fst (keccak state verbose) = fst (keccak state False)"
  by (simp add: keccak_lanes)

lemma iota_lane:
  assumes "state_shape state" and "row < 5" and "col < 5"
  shows "fst (iota round (state, temp_row)) ! row ! col
           = (if row = 0 \<and> col = 0 then state ! 0 ! 0 XOR round_constants ! round
              else state ! row ! col)"
  using assms by (auto simp: state_shape_def nth_list_update_if)

text \<open>
  C5: for every starting state, \<open>keccak\<close> applies exactly 24 rounds, numbered 0 to 23,
  whatever the state and the verbose flag; each round applies theta, then rho and pi,
  then chi, then iota; and iota XORs the round constant of the round into lane (0,0)
  and changes no other lane.
\<close>

theorem keccak_rounds_in_order:
  "fst (keccak state verbose)
     = fst (fold (\<lambda>round st. iota round (chi (rho_pi (theta st)))) [0..<KECCAK_ROUNDS]
              (state, replicate 5 0))
   \<and> KECCAK_ROUNDS = 24
   \<and> fst (keccak_round verbose round ((state, temp_row), out))
       = iota round (chi (rho_pi (theta (state, temp_row))))
   \<and> (length state = 5 \<and> (\<forall>row<5. length (state ! row) = 5) \<longrightarrow>
        (\<forall>row<5. \<forall>col<5.
           fst (iota round (state, temp_row)) ! row ! col
             = (if row = 0 \<and> col = 0 then state ! 0 ! 0 XOR round_constants ! round
                else state ! row ! col)))"
proof -
  have "keccak_f_round = (\<lambda>round st. iota round (chi (rho_pi (theta st))))"
    by (intro ext) (simp add: keccak_f_round_def)
  then have "fst (keccak state verbose)
     = fst (fold (\<lambda>round st. iota round (chi (rho_pi (theta st)))) [0..<KECCAK_ROUNDS]
              (state, replicate 5 0))"
    using keccak_lanes [of state verbose] by simp
  moreover have "fst (keccak_round verbose round ((state, temp_row), out))
       = iota round (chi (rho_pi (theta (state, temp_row))))"
    using keccak_round_lanes [of verbose round "(state, temp_row)" out]
    by (simp only: keccak_f_round_def)
  moreover have "length state = 5 \<and> (\<forall>row<5. length (state ! row) = 5) \<longrightarrow>
        (\<forall>row<5. \<forall>col<5.
           fst (iota round (state, temp_row)) ! row ! col
             = (if row = 0 \<and> col = 0 then state ! 0 ! 0 XOR round_constants ! round
                else state ! row ! col))"
    using iota_lane [of state _ _ round temp_row] by (simp add: state_shape_def)
  ultimately show ?thesis by (simp add: KECCAK_ROUNDS_def)
qed

theorem keccak_rounds_in_order_witness:
  "length (replicate 5 (replicate 5 (0 :: lane))) = 5
   \<and> length (replicate 5 (replicate 5 (0 :: lane)) ! 2) = 5
   \<and> fst (iota 3 (replicate 5 (replicate 5 0), replicate 5 0)) ! 0 ! 0 = 0x8000000080008000
   \<and> fst (iota 3 (replicate 5 (replicate 5 0), replicate 5 0)) ! 2 ! 4 = 0"
proof -
  have shape: "length (replicate 5 (replicate 5 (0 :: lane))) = 5
      \<and> (\<forall>row<5. length (replicate 5 (replicate 5 (0 :: lane)) ! row) = 5)"
    by simp
  have lanes: "\<forall>row<5. \<forall>col<5.
      fst (iota 3 (replicate 5 (replicate 5 0), replicate 5 0)) ! row ! col
        = (if row = 0 \<and> col = 0
           then replicate 5 (replicate 5 0) ! 0 ! 0 XOR round_constants ! 3
           else replicate 5 (replicate 5 0) ! row ! col)"
    using shape
      keccak_rounds_in_order [where state = "replicate 5 (replicate 5 0)" and round = 3
        and temp_row = "replicate 5 0"]
    by blast
  have "fst (iota 3 (replicate 5 (replicate 5 0), replicate 5 0)) ! 0 ! 0 = 0x8000000080008000"
    using lanes [rule_format, of 0 0] by (simp add: round_constants_def)
  moreover have "fst (iota 3 (replicate 5 (replicate 5 0), replicate 5 0)) ! 2 ! 4 = 0"
    using lanes [rule_format, of 2 4] by simp
  ultimately show ?thesis by simp
qed


section \<open>Properties of the driver\<close>

text \<open>One iteration of the loop of \<open>main\<close>, on the state alone.\<close>

lemma main_loop_last:
  assumes "bytes_read \<noteq> RATE_BYTES"
  shows "fst (main_loop verbose infile input bytes_read state out)
           = fst (keccak (absorb_input (pad_input input bytes_read) state) False)"
  using assms keccak_verbose_lanes [of _ verbose]
  by (subst main_loop.simps) (simp add: Let_def case_prod_beta)

lemma main_loop_more:
  assumes "bytes_read = RATE_BYTES"
  shows "\<exists>out'. main_loop verbose infile input bytes_read state out
           = main_loop verbose (drop (min 136 (length infile)) infile)
               (take (min 136 (length infile)) infile
                  @ drop (min 136 (length infile)) (memset (pad_input input bytes_read) 0 200))
               (min 136 (length infile))
               (fst (keccak (absorb_input (pad_input input bytes_read) state) False))
               out'"
  using assms keccak_verbose_lanes [of _ verbose]
  by (subst main_loop.simps)
     (auto simp: Let_def case_prod_beta fread_def RATE_BYTES_def CAPACITY_BYTES_def)

lemma main_loop_verbose_lanes:
  "fst (main_loop verbose infile input bytes_read state out)
     = fst (main_loop False infile input bytes_read state [])"
proof (induction "2 * length infile + (if bytes_read = RATE_BYTES then 1 else 0 :: nat)"
         arbitrary: verbose infile input bytes_read state out rule: less_induct)
  case less
  show ?case
  proof (cases "bytes_read = RATE_BYTES")
    case False
    then show ?thesis by (simp add: main_loop_last)
  next
    case True
    let ?n = "min 136 (length infile)"
    let ?infile = "drop ?n infile"
    let ?input = "take ?n infile @ drop ?n (memset (pad_input input bytes_read) 0 200)"
    let ?state = "fst (keccak (absorb_input (pad_input input bytes_read) state) False)"
    obtain out1 where 1: "main_loop verbose infile input bytes_read state out
                            = main_loop verbose ?infile ?input ?n ?state out1"
      using main_loop_more [OF True] by blast
    obtain out2 where 2: "main_loop False infile input bytes_read state []
                            = main_loop False ?infile ?input ?n ?state out2"
      using main_loop_more [OF True] by blast
    have smaller: "2 * length ?infile + (if ?n = RATE_BYTES then 1 else 0 :: nat)
                     < 2 * length infile + (if bytes_read = RATE_BYTES then 1 else 0)"
      using True by (auto simp: RATE_BYTES_def)
    have "fst (main_loop verbose ?infile ?input ?n ?state out1)
            = fst (main_loop False ?infile ?input ?n ?state [])"
      using less [OF smaller] .
    moreover have "fst (main_loop False ?infile ?input ?n ?state out2)
            = fst (main_loop False ?infile ?input ?n ?state [])"
      using less [OF smaller] .
    ultimately show ?thesis using 1 2 by simp
  qed
qed

lemma main_loop_quiet:
  "snd (main_loop False infile input bytes_read state out) = out"
proof (induction "2 * length infile + (if bytes_read = RATE_BYTES then 1 else 0 :: nat)"
         arbitrary: infile input bytes_read state out rule: less_induct)
  case less
  show ?case
  proof (cases "bytes_read = RATE_BYTES")
    case False
    then show ?thesis
      by (subst main_loop.simps) (simp add: Let_def case_prod_beta keccak_quiet)
  next
    case True
    let ?n = "min 136 (length infile)"
    let ?infile = "drop ?n infile"
    let ?input = "take ?n infile @ drop ?n (memset (pad_input input bytes_read) 0 200)"
    let ?state = "fst (keccak (absorb_input (pad_input input bytes_read) state) False)"
    have step: "main_loop False infile input bytes_read state out
                  = main_loop False ?infile ?input ?n ?state out"
      using True
      by (subst main_loop.simps)
         (simp add: Let_def case_prod_beta fread_def RATE_BYTES_def CAPACITY_BYTES_def
            keccak_quiet)
    have smaller: "2 * length ?infile + (if ?n = RATE_BYTES then 1 else 0 :: nat)
                     < 2 * length infile + (if bytes_read = RATE_BYTES then 1 else 0)"
      using True by (auto simp: RATE_BYTES_def)
    show ?thesis
      using less [OF smaller] step by simp
  qed
qed

lemma sponge_quiet: "snd (sponge False infile state) = []"
  by (simp add: sponge_def Let_def case_prod_beta main_loop_quiet)

lemma sponge_verbose_lanes: "fst (sponge verbose infile state) = fst (sponge False infile state)"
  using main_loop_verbose_lanes [of verbose]
  by (simp add: sponge_def Let_def case_prod_beta)

lemma main_verbose_output:
  "\<exists>diagnostics. main fopen [prog, path, ''-v'']
      = (fst (main fopen [prog, path]), diagnostics @ snd (main fopen [prog, path]))"
proof (cases "fopen path")
  case None
  then show ?thesis by (simp add: main_def)
next
  case (Some infile)
  then show ?thesis
    using sponge_verbose_lanes [of True infile "replicate 5 (replicate 5 0)"]
    by (simp add: main_def Let_def case_prod_beta sponge_quiet)
qed

text \<open>
  C9: for every input and every starting state, the state computed with the verbose flag
  set equals the state computed without it, in the permutation, in the loop of the
  driver and in the driver as a whole; the flag only adds output: \<open>main\<close> called
  with \<open>-v\<close> returns the same status and prints diagnostics followed by what it prints
  without the flag.
\<close>

theorem verbose_flag_leaves_state:
  "fst (keccak state True) = fst (keccak state False)
   \<and> fst (main_loop True infile input bytes_read state out)
       = fst (main_loop False infile input bytes_read state out)
   \<and> fst (sponge True infile state) = fst (sponge False infile state)
   \<and> snd (keccak state False) = []
   \<and> (\<exists>diagnostics. main fopen [prog, path, ''-v'']
         = (fst (main fopen [prog, path]), diagnostics @ snd (main fopen [prog, path])))"
proof -
  have "fst (main_loop True infile input bytes_read state out)
          = fst (main_loop False infile input bytes_read state out)"
    using main_loop_verbose_lanes [of True infile input bytes_read state out]
      main_loop_verbose_lanes [of False infile input bytes_read state out]
    by simp
  moreover have "fst (sponge True infile state) = fst (sponge False infile state)"
    by (rule sponge_verbose_lanes)
  ultimately show ?thesis
    using keccak_verbose_lanes [of state True] keccak_quiet [of state]
      main_verbose_output [of fopen prog path]
    by simp
qed

lemma pad_input_empty: "pad_input (replicate 200 0) 0 = padded_empty_block"
proof (rule nth_equalityI)
  show "length (pad_input (replicate 200 0) 0) = length padded_empty_block"
    by (simp add: pad_input_def RATE_BYTES_def Let_def case_prod_beta pad_zero_loop_length
        padded_empty_block_def)
next
  fix k
  assume "k < length (pad_input (replicate 200 0) 0)"
  then have k: "k < 200"
    by (simp add: pad_input_def RATE_BYTES_def Let_def case_prod_beta pad_zero_loop_length)
  have "padded_empty_block ! k = (if k = 0 then 0x06 else if k = 135 then 0x80 else 0)"
    using k by (auto simp: padded_empty_block_def nth_Cons' nth_append)
  then show "pad_input (replicate 200 0) 0 ! k = padded_empty_block ! k"
    using k by (simp add: pad_input_nth)
qed

lemma pad_input_full: "pad_input input 136 = input"
  by (simp add: pad_input_def RATE_BYTES_def)

lemma main_loop_full_blocks:
  assumes "length rest = 136 * k" and "length block = 136"
  shows "fst (main_loop verbose rest (block @ replicate 64 0) 136 state out)
           = fst (keccak (absorb_input padded_empty_block
                    (absorb_full_blocks (Suc k) (block @ rest) state)) False)"
  using assms
proof (induction k arbitrary: rest block state out)
  case 0
  let ?state = "fst (keccak (absorb_input (block @ replicate 64 0) state) False)"
  obtain out' where "main_loop verbose rest (block @ replicate 64 0) 136 state out
                       = main_loop verbose [] (replicate 200 0) 0 ?state out'"
    using main_loop_more [of 136 verbose rest "block @ replicate 64 0" state out] 0
    by (auto simp: RATE_BYTES_def pad_input_full memset_def)
  then show ?case
    using 0 by (simp add: main_loop_last RATE_BYTES_def pad_input_empty)
next
  case (Suc k)
  let ?state = "fst (keccak (absorb_input (block @ replicate 64 0) state) False)"
  have len: "136 \<le> length rest" using Suc.prems(1) by simp
  obtain out' where "main_loop verbose rest (block @ replicate 64 0) 136 state out
                       = main_loop verbose (drop 136 rest) (take 136 rest @ replicate 64 0)
                           136 ?state out'"
    using main_loop_more [of 136 verbose rest "block @ replicate 64 0" state out] Suc.prems len
    by (auto simp: RATE_BYTES_def pad_input_full memset_def min_def)
  moreover have "fst (main_loop verbose (drop 136 rest) (take 136 rest @ replicate 64 0)
                           136 ?state out')
                   = fst (keccak (absorb_input padded_empty_block
                       (absorb_full_blocks (Suc k) (take 136 rest @ drop 136 rest) ?state)) False)"
    using Suc.prems len by (intro Suc.IH) simp_all
  ultimately show ?case
    using Suc.prems by simp
qed

text \<open>
  C3: for every input whose length is a multiple of 136 bytes, the empty input included,
  the driver absorbs each full block without padding and permutes, and then absorbs and
  permutes one more block, the fully padded empty block (padding applied with
  \<open>L = 0\<close> to the zeroed buffer), before the loop is left.
\<close>

theorem exact_multiple_gets_padded_block:
  assumes "length infile = 136 * k"
  shows "fst (sponge verbose infile state)
           = fst (keccak (absorb_input (pad_input (replicate 200 0) 0)
                    (absorb_full_blocks k infile state)) False)
         \<and> pad_input (replicate 200 0) 0 = 0x06 # replicate 134 0 @ [0x80] @ replicate 64 0"
proof (cases k)
  case 0
  then have "infile = []" using assms by simp
  then show ?thesis
    using 0
    by (simp add: sponge_def fread_def RATE_BYTES_def CAPACITY_BYTES_def main_loop_last
        pad_input_empty padded_empty_block_def)
next
  case (Suc k')
  then have len: "136 \<le> length infile" "length (drop 136 infile) = 136 * k'"
    using assms by simp_all
  have "fst (main_loop verbose (drop 136 infile) (take 136 infile @ replicate 64 0) 136 state [])
          = fst (keccak (absorb_input padded_empty_block
              (absorb_full_blocks (Suc k') (take 136 infile @ drop 136 infile) state)) False)"
    using len by (intro main_loop_full_blocks) simp_all
  then show ?thesis
    using Suc len
    by (simp add: sponge_def fread_def RATE_BYTES_def CAPACITY_BYTES_def min_def
        pad_input_empty padded_empty_block_def)
qed

theorem exact_multiple_gets_padded_block_witness:
  "length (replicate 136 (0x61 :: byte)) = 136 * 1
   \<and> fst (sponge False (replicate 136 0x61) (replicate 5 (replicate 5 0)))
       = fst (keccak (absorb_input (pad_input (replicate 200 0) 0)
           (fst (keccak (absorb_input (replicate 136 0x61 @ replicate 64 0)
                          (replicate 5 (replicate 5 0))) False))) False)"
proof -
  have len: "length (replicate 136 (0x61 :: byte)) = 136 * 1" by simp
  show ?thesis
    using len exact_multiple_gets_padded_block [OF len, of False "replicate 5 (replicate 5 0)"]
    by simp
qed

section \<open>The program at concrete inputs\<close>


lemma upt5: "[0..<5] = [0, 1, 2, 3, 4]"
  by (simp add: upt_rec)

lemma upt24:
  "[0..<24] = [0, 1, 2, 3, 4, 5, 6, 7, 8, 9, 10, 11, 12, 13, 14, 15, 16, 17, 18, 19, 20, 21, 22, 23]"
  by (simp add: upt_rec)

lemma theta_closed:
  "theta ([[a00, a01, a02, a03, a04], [a10, a11, a12, a13, a14], [a20, a21, a22, a23, a24], [a30, a31, a32, a33, a34], [a40, a41, a42, a43, a44]], [t0, t1, t2, t3, t4]) =
     (let c0 = a00 XOR a10 XOR a20 XOR a30 XOR a40; c1 = a01 XOR a11 XOR a21 XOR a31 XOR a41; c2 = a02 XOR a12 XOR a22 XOR a32 XOR a42; c3 = a03 XOR a13 XOR a23 XOR a33 XOR a43; c4 = a04 XOR a14 XOR a24 XOR a34 XOR a44;
          d0 = c4 XOR ROTL64 c1 1; d1 = c0 XOR ROTL64 c2 1; d2 = c1 XOR ROTL64 c3 1;
          d3 = c2 XOR ROTL64 c4 1; d4 = c3 XOR ROTL64 c0 1
      in ([[a00 XOR d0, a01 XOR d1, a02 XOR d2, a03 XOR d3, a04 XOR d4],
      [a10 XOR d0, a11 XOR d1, a12 XOR d2, a13 XOR d3, a14 XOR d4],
      [a20 XOR d0, a21 XOR d1, a22 XOR d2, a23 XOR d3, a24 XOR d4],
      [a30 XOR d0, a31 XOR d1, a32 XOR d2, a33 XOR d3, a34 XOR d4],
      [a40 XOR d0, a41 XOR d1, a42 XOR d2, a43 XOR d3, a44 XOR d4]],
          [c0, c1, c2, c3, c4]))"
  by (simp add: theta_parity_def theta_columns_def upt5 Let_def xor.assoc)

lemma rho_pi_closed:
  "rho_pi ([[a00, a01, a02, a03, a04], [a10, a11, a12, a13, a14], [a20, a21, a22, a23, a24], [a30, a31, a32, a33, a34], [a40, a41, a42, a43, a44]], [t0, t1, t2, t3, t4]) =
     ([[a00, ROTL64 a11 44, ROTL64 a22 43, ROTL64 a33 21, ROTL64 a44 14],
      [ROTL64 a03 28, ROTL64 a14 20, ROTL64 a20 3, ROTL64 a31 45, ROTL64 a42 61],
      [ROTL64 a01 1, ROTL64 a12 6, ROTL64 a23 25, ROTL64 a34 8, ROTL64 a40 18],
      [ROTL64 a04 27, ROTL64 a10 36, ROTL64 a21 10, ROTL64 a32 15, ROTL64 a43 56],
      [ROTL64 a02 62, ROTL64 a13 55, ROTL64 a24 39, ROTL64 a30 41, ROTL64 a41 2]],
      [a01, t1, t2, t3, t4])"
  by (simp add: upt24 Let_def pi_shifts_def rho_rotations_def)

lemma chi_closed:
  "chi ([[a00, a01, a02, a03, a04], [a10, a11, a12, a13, a14], [a20, a21, a22, a23, a24], [a30, a31, a32, a33, a34], [a40, a41, a42, a43, a44]], [t0, t1, t2, t3, t4]) =
     ([[a00 XOR (NOT a01 AND a02), a01 XOR (NOT a02 AND a03), a02 XOR (NOT a03 AND a04), a03 XOR (NOT a04 AND a00), a04 XOR (NOT a00 AND a01)],
      [a10 XOR (NOT a11 AND a12), a11 XOR (NOT a12 AND a13), a12 XOR (NOT a13 AND a14), a13 XOR (NOT a14 AND a10), a14 XOR (NOT a10 AND a11)],
      [a20 XOR (NOT a21 AND a22), a21 XOR (NOT a22 AND a23), a22 XOR (NOT a23 AND a24), a23 XOR (NOT a24 AND a20), a24 XOR (NOT a20 AND a21)],
      [a30 XOR (NOT a31 AND a32), a31 XOR (NOT a32 AND a33), a32 XOR (NOT a33 AND a34), a33 XOR (NOT a34 AND a30), a34 XOR (NOT a30 AND a31)],
      [a40 XOR (NOT a41 AND a42), a41 XOR (NOT a42 AND a43), a42 XOR (NOT a43 AND a44), a43 XOR (NOT a44 AND a40), a44 XOR (NOT a40 AND a41)]],
      [a40, a41, a42, a43, a44])"
  by (simp add: upt5 Let_def)

lemma iota_closed:
  "iota round ([[a00, a01, a02, a03, a04], [a10, a11, a12, a13, a14], [a20, a21, a22, a23, a24], [a30, a31, a32, a33, a34], [a40, a41, a42, a43, a44]], [t0, t1, t2, t3, t4]) =
     ([[a00 XOR round_constants ! round, a01, a02, a03, a04],
      [a10, a11, a12, a13, a14],
      [a20, a21, a22, a23, a24],
      [a30, a31, a32, a33, a34],
      [a40, a41, a42, a43, a44]],
      [t0, t1, t2, t3, t4])"
  by simp


lemma upt17:
  "[0..<17] = [0, 1, 2, 3, 4, 5, 6, 7, 8, 9, 10, 11, 12, 13, 14, 15, 16]"
  by (simp add: upt_rec)

lemma zero_state:
  "replicate 5 (replicate 5 (0 :: lane)) =
     [[0, 0, 0, 0, 0], [0, 0, 0, 0, 0], [0, 0, 0, 0, 0], [0, 0, 0, 0, 0], [0, 0, 0, 0, 0]]"
  by (simp add: numeral_eq_Suc)

lemma zero_row: "replicate 5 (0 :: lane) = [0, 0, 0, 0, 0]"
  by (simp add: numeral_eq_Suc)

lemma absorb_empty:
  "absorb_input (pad_input (replicate 200 0) 0) (replicate 5 (replicate 5 0)) =
     [[0x06, 0, 0, 0, 0], [0, 0, 0, 0, 0], [0, 0, 0, 0, 0],
      [0, 0x8000000000000000, 0, 0, 0], [0, 0, 0, 0, 0]]"
  by (simp add: absorb_input_def RATE_BYTES_def upt17 input_word_of_def pad_input_nth zero_state)

lemma absorb_0E:
  "absorb_input (pad_input (0x0E # replicate 199 0) (Suc 0)) (replicate 5 (replicate 5 0)) =
     [[0x060E, 0, 0, 0, 0], [0, 0, 0, 0, 0], [0, 0, 0, 0, 0],
      [0, 0x8000000000000000, 0, 0, 0], [0, 0, 0, 0, 0]]"
  by (simp add: absorb_input_def RATE_BYTES_def upt17 input_word_of_def pad_input_nth zero_state)


subsection \<open>The empty file\<close>

lemma empty_round_0:
  "keccak_f_round 0
    ([[0x0000000000000006, 0x0000000000000000, 0x0000000000000000, 0x0000000000000000, 0x0000000000000000],
     [0x0000000000000000, 0x0000000000000000, 0x0000000000000000, 0x0000000000000000, 0x0000000000000000],
     [0x0000000000000000, 0x0000000000000000, 0x0000000000000000, 0x0000000000000000, 0x0000000000000000],
     [0x0000000000000000, 0x8000000000000000, 0x0000000000000000, 0x0000000000000000, 0x0000000000000000],
     [0x0000000000000000, 0x0000000000000000, 0x0000000000000000, 0x0000000000000000, 0x0000000000000000]],
     [0x0000000000000000, 0x0000000000000000, 0x0000000000000000, 0x0000000000000000, 0x0000000000000000]) =
    ([[0x0000040000000006, 0x0000600000000000, 0x0000040000030000, 0x0000000000000007, 0x0000600000030000],
     [0x0000000000000008, 0x0000D00000C00000, 0x1000000000000008, 0x0000D00000000000, 0x1000000000C00000],
     [0x000000000000000C, 0x0000000000000C20, 0x0000000000040000, 0x0000000000000C0C, 0x0000000000040020],
     [0x0000000060001800, 0x0000001000004000, 0x0000000000001800, 0x0000000060004000, 0x0000001000000000],
     [0x2000060000000000, 0x0000000000000000, 0x0000060000000018, 0x2000020000000000, 0x0000000000000018]],
     [0x2000000000000000, 0x0000000000000000, 0x0000060000000000, 0x0000020000000000, 0x0000000000000018])"
  by (simp add: keccak_f_round_def theta_closed rho_pi_closed chi_closed iota_closed
      round_constants_def ROTL64_def Let_def
      del: theta.simps rho_pi.simps chi.simps iota.simps)

lemma empty_round_1:
  "keccak_f_round 1
    ([[0x0000040000000006, 0x0000600000000000, 0x0000040000030000, 0x0000000000000007, 0x0000600000030000],
     [0x0000000000000008, 0x0000D00000C00000, 0x1000000000000008, 0x0000D00000000000, 0x1000000000C00000],
     [0x000000000000000C, 0x0000000000000C20, 0x0000000000040000, 0x0000000000000C0C, 0x0000000000040020],
     [0x0000000060001800, 0x0000001000004000, 0x0000000000001800, 0x0000000060004000, 0x0000001000000000],
     [0x2000060000000000, 0x0000000000000000, 0x0000060000000018, 0x2000020000000000, 0x0000000000000018]],
     [0x2000000000000000, 0x0000000000000000, 0x0000060000000000, 0x0000020000000000, 0x0000000000000018]) =
    ([[0x1420963001C798FE, 0xA28E212B09660614, 0x1721BA001BA15E06, 0x440D351B0C440066, 0xD70208001325DE00],
     [0x801890067908CF82, 0x2D0E4C07C0350C0C, 0x800823C21224D124, 0xCD1CD18463C20823, 0xA8022E4398EF1A88],
     [0x4002DE08085C5044, 0x009104B0302901F4, 0x58031736B9E0C180, 0x00D6D8A080601F20, 0x1885052E51C1CF94],
     [0x05001B6043800DB0, 0x9E79E761461B2300, 0x6008010038908118, 0x8F087B403D1B24A0, 0x706984C120118B18],
     [0x922653B4305BF55D, 0xBD18E0091200A40E, 0x023E1FB180538058, 0x1F00B424320035C7, 0x201818088038A008]],
     [0x900044043030F50D, 0x301800091000C48C, 0x023E17B0006B0050, 0x8F00F020020060C2, 0x000018018038A088])"
  by (simp add: keccak_f_round_def theta_closed rho_pi_closed chi_closed iota_closed
      round_constants_def ROTL64_def Let_def
      del: theta.simps rho_pi.simps chi.simps iota.simps)

lemma empty_round_2:
  "keccak_f_round 2
    ([[0x1420963001C798FE, 0xA28E212B09660614, 0x1721BA001BA15E06, 0x440D351B0C440066, 0xD70208001325DE00],
     [0x801890067908CF82, 0x2D0E4C07C0350C0C, 0x800823C21224D124, 0xCD1CD18463C20823, 0xA8022E4398EF1A88],
     [0x4002DE08085C5044, 0x009104B0302901F4, 0x58031736B9E0C180, 0x00D6D8A080601F20, 0x1885052E51C1CF94],
     [0x05001B6043800DB0, 0x9E79E761461B2300, 0x6008010038908118, 0x8F087B403D1B24A0, 0x706984C120118B18],
     [0x922653B4305BF55D, 0xBD18E0091200A40E, 0x023E1FB180538058, 0x1F00B424320035C7, 0x201818088038A008]],
     [0x900044043030F50D, 0x301800091000C48C, 0x023E17B0006B0050, 0x8F00F020020060C2, 0x000018018038A088]) =
    ([[0x333EC040611FA335, 0x1771CA42B4C66C33, 0xE80AF6AF70DBAEE2, 0xC0AC1B4D4A4F3FB6, 0xB660DA9788A873FB],
     [0x5F3A62F88D878D81, 0x4C85F8FCB8035DCD, 0x6B2DC03D10F24C7D, 0xC46250EA0A86A723, 0x537FBAF86F997259],
     [0x754626B626C4CA61, 0x7CECAA99E7A6C007, 0x1A590408B785026F, 0xAF456ED279F6B8EE, 0x4F4C82A2BB43C44E],
     [0x3FEA493D47473696, 0x9ABFCEBBF0B74B24, 0xEB8F15D29C87106E, 0x8683A221C2FE7B37, 0xBDC8D1D99946E21B],
     [0x302B86D064EEF760, 0xECE7140B44DF9A07, 0xC60E1F63B9EAD0E3, 0xE06A7EC4F53EFD46, 0x5C7131AB00121079]],
     [0x22338C90DDCEB7B8, 0xEC87F49F44CF9003, 0xD69B1E43B9EBD0DB, 0xC268F2D428F25AC6, 0x90F541A40013107A])"
  by (simp add: keccak_f_round_def theta_closed rho_pi_closed chi_closed iota_closed
      round_constants_def ROTL64_def Let_def
      del: theta.simps rho_pi.simps chi.simps iota.simps)

lemma empty_round_3:
  "keccak_f_round 3
    ([[0x333EC040611FA335, 0x1771CA42B4C66C33, 0xE80AF6AF70DBAEE2, 0xC0AC1B4D4A4F3FB6, 0xB660DA9788A873FB],
     [0x5F3A62F88D878D81, 0x4C85F8FCB8035DCD, 0x6B2DC03D10F24C7D, 0xC46250EA0A86A723, 0x537FBAF86F997259],
     [0x754626B626C4CA61, 0x7CECAA99E7A6C007, 0x1A590408B785026F, 0xAF456ED279F6B8EE, 0x4F4C82A2BB43C44E],
     [0x3FEA493D47473696, 0x9ABFCEBBF0B74B24, 0xEB8F15D29C87106E, 0x8683A221C2FE7B37, 0xBDC8D1D99946E21B],
     [0x302B86D064EEF760, 0xECE7140B44DF9A07, 0xC60E1F63B9EAD0E3, 0xE06A7EC4F53EFD46, 0x5C7131AB00121079]],
     [0x22338C90DDCEB7B8, 0xEC87F49F44CF9003, 0xD69B1E43B9EBD0DB, 0xC268F2D428F25AC6, 0x90F541A40013107A]) =
    ([[0xD2204351FBA621A7, 0x27031B5F86648B57, 0x9A3D378F90A4B5AF, 0x66B70EF68AF62519, 0x567E276F7B1D6545],
     [0x3228263F709CB021, 0x4E61BC49F15B2CBD, 0x614568786EE7E2D9, 0x17D39EBD3EB9DFF8, 0xC9627D1A1E20D619],
     [0xD41B76866F72C3D1, 0x8AA16A94C18E2FF0, 0x0D0286D51B79FCA7, 0x7CA60EC1230E458F, 0x2F007F6A85E3492C],
     [0x06ADE8F9B8210DA6, 0x7B4DF3ABDD4ED69E, 0x6385B7ED461A5FBC, 0x521E438594609401, 0x4E915241D583E1AB],
     [0x42E7D0870CCD8A88, 0xE5F2FC1EDEB005BC, 0x2B7CA707B654DDB5, 0xEE0218AF0D9558F9, 0x6F789ACDF193FA0A]],
     [0x48E3D1C60C8BF08B, 0x2173A4B6DF3905F4, 0x2B14015794767AB3, 0xEE8159AD019D5878, 0x4E68BEFD22A3FF7E])"
  by (simp add: keccak_f_round_def theta_closed rho_pi_closed chi_closed iota_closed
      round_constants_def ROTL64_def Let_def
      del: theta.simps rho_pi.simps chi.simps iota.simps)

lemma empty_round_4:
  "keccak_f_round 4
    ([[0xD2204351FBA621A7, 0x27031B5F86648B57, 0x9A3D378F90A4B5AF, 0x66B70EF68AF62519, 0x567E276F7B1D6545],
     [0x3228263F709CB021, 0x4E61BC49F15B2CBD, 0x614568786EE7E2D9, 0x17D39EBD3EB9DFF8, 0xC9627D1A1E20D619],
     [0xD41B76866F72C3D1, 0x8AA16A94C18E2FF0, 0x0D0286D51B79FCA7, 0x7CA60EC1230E458F, 0x2F007F6A85E3492C],
     [0x06ADE8F9B8210DA6, 0x7B4DF3ABDD4ED69E, 0x6385B7ED461A5FBC, 0x521E438594609401, 0x4E915241D583E1AB],
     [0x42E7D0870CCD8A88, 0xE5F2FC1EDEB005BC, 0x2B7CA707B654DDB5, 0xEE0218AF0D9558F9, 0x6F789ACDF193FA0A]],
     [0x48E3D1C60C8BF08B, 0x2173A4B6DF3905F4, 0x2B14015794767AB3, 0xEE8159AD019D5878, 0x4E68BEFD22A3FF7E]) =
    ([[0x392CAA215BCFF387, 0x77E75512314412F1, 0xF015D60E1EFF149F, 0x946D390B9A7D9EC8, 0x4093038928DB0734],
     [0x91F11EF027B9D2C0, 0xFB6919D097B8948E, 0xFC0DCADA0B9EEB91, 0xDB4A8EF245442521, 0x6EBDBCCED38E6C1A],
     [0x48CCCABDB190171E, 0x418843D1A62FF018, 0x5D51CD5AE947BC98, 0xEDD189FAF668D70F, 0x44EE8B3774A307AF],
     [0x0DA7070B009897AD, 0xECCB4D156314E09D, 0x7F7842EF0AA5A20F, 0x63C972FFF9FC3FAF, 0x623B120ED2D514A2],
     [0xAF373F871806116B, 0x2171570668512032, 0x0F49341FA686F6C6, 0xE3BA01474F02C800, 0xE2715022B2A325C3]],
     [0xA13F1FBE0E20C26E, 0xC1C55DC62951281A, 0x0F48243F3676F315, 0xE2B40EDB43020A2C, 0xA2B1106293F20DD3])"
  by (simp add: keccak_f_round_def theta_closed rho_pi_closed chi_closed iota_closed
      round_constants_def ROTL64_def Let_def
      del: theta.simps rho_pi.simps chi.simps iota.simps)

lemma empty_round_5:
  "keccak_f_round 5
    ([[0x392CAA215BCFF387, 0x77E75512314412F1, 0xF015D60E1EFF149F, 0x946D390B9A7D9EC8, 0x4093038928DB0734],
     [0x91F11EF027B9D2C0, 0xFB6919D097B8948E, 0xFC0DCADA0B9EEB91, 0xDB4A8EF245442521, 0x6EBDBCCED38E6C1A],
     [0x48CCCABDB190171E, 0x418843D1A62FF018, 0x5D51CD5AE947BC98, 0xEDD189FAF668D70F, 0x44EE8B3774A307AF],
     [0x0DA7070B009897AD, 0xECCB4D156314E09D, 0x7F7842EF0AA5A20F, 0x63C972FFF9FC3FAF, 0x623B120ED2D514A2],
     [0xAF373F871806116B, 0x2171570668512032, 0x0F49341FA686F6C6, 0xE3BA01474F02C800, 0xE2715022B2A325C3]],
     [0xA13F1FBE0E20C26E, 0xC1C55DC62951281A, 0x0F48243F3676F315, 0xE2B40EDB43020A2C, 0xA2B1106293F20DD3]) =
    ([[0x839AF63B0963E336, 0xA6A23081D53E5E2F, 0xF1F6300A2BD46FB4, 0x75C60932E6303625, 0x8436287F67F11D75],
     [0xD1E711276F213F7C, 0x0D4D659C46DC932F, 0x19FCD5425BA1F766, 0x8FD79DB70CA133E0, 0x83579B4512956E50],
     [0xFF0C6AACAA4C10A0, 0xEAD10F4F5C1676AF, 0x79DF58FF26327994, 0xDCD24CF783EEDD65, 0x8FBE83EFD1FFF15B],
     [0x98CD3BA24AB0631D, 0xF70E2335A03632AD, 0x793CF705F578E707, 0x66A436960E123D7C, 0xFF15D64F20C40FA4],
     [0x4D00BA0F6E8D2311, 0xDE9680EE90F72994, 0x7AFEA851E0ADF6AC, 0x022739DAA0B7AAC1, 0x16927D08E4EEF888]],
     [0x6D68D61E4A8DA531, 0xDF9793629AE520C4, 0xFEFEEC71B4A5A6A0, 0x6B4FBBCCAAB6AFF0, 0x84057C68748EF84C])"
  by (simp add: keccak_f_round_def theta_closed rho_pi_closed chi_closed iota_closed
      round_constants_def ROTL64_def Let_def
      del: theta.simps rho_pi.simps chi.simps iota.simps)

lemma empty_round_6:
  "keccak_f_round 6
    ([[0x839AF63B0963E336, 0xA6A23081D53E5E2F, 0xF1F6300A2BD46FB4, 0x75C60932E6303625, 0x8436287F67F11D75],
     [0xD1E711276F213F7C, 0x0D4D659C46DC932F, 0x19FCD5425BA1F766, 0x8FD79DB70CA133E0, 0x83579B4512956E50],
     [0xFF0C6AACAA4C10A0, 0xEAD10F4F5C1676AF, 0x79DF58FF26327994, 0xDCD24CF783EEDD65, 0x8FBE83EFD1FFF15B],
     [0x98CD3BA24AB0631D, 0xF70E2335A03632AD, 0x793CF705F578E707, 0x66A436960E123D7C, 0xFF15D64F20C40FA4],
     [0x4D00BA0F6E8D2311, 0xDE9680EE90F72994, 0x7AFEA851E0ADF6AC, 0x022739DAA0B7AAC1, 0x16927D08E4EEF888]],
     [0x6D68D61E4A8DA531, 0xDF9793629AE520C4, 0xFEFEEC71B4A5A6A0, 0x6B4FBBCCAAB6AFF0, 0x84057C68748EF84C]) =
    ([[0xA3975E1817815FE8, 0xCFE13D5DCC42F2D4, 0x1EBBA43FC9687397, 0x793D1E6EF28F565C, 0x20E35DD183D249FE],
     [0x6E8403AEE6F62DCD, 0x47325691915FDFF1, 0x68C13BEDA6B126F2, 0x4FF61571FD0FDD2B, 0x12DB6FF5BA049B30],
     [0xF461E2B16558EF27, 0x7BF9EFBBE87366F1, 0x2220BCC65DBE6921, 0x995978965919776C, 0x48BBCC56D59DE4CF],
     [0xD388229521F037AB, 0xCFD03216F3B61A6B, 0x031851CC114C4FE9, 0x83F8A0EDCC4DFA86, 0x846211CE0325CFF4],
     [0x26641CE5D5F50125, 0x0043BAE588C72A1C, 0x2942E5980C276565, 0xD3CE9F79B0F603E8, 0xD89E84D7D7873A36]],
     [0x077459FF96D55446, 0xD4EFB8A438472894, 0x2153C51E43267563, 0xD4AEC651B0A647A8, 0x081524D7FF8512A6])"
  by (simp add: keccak_f_round_def theta_closed rho_pi_closed chi_closed iota_closed
      round_constants_def ROTL64_def Let_def
      del: theta.simps rho_pi.simps chi.simps iota.simps)

lemma empty_round_7:
  "keccak_f_round 7
    ([[0xA3975E1817815FE8, 0xCFE13D5DCC42F2D4, 0x1EBBA43FC9687397, 0x793D1E6EF28F565C, 0x20E35DD183D249FE],
     [0x6E8403AEE6F62DCD, 0x47325691915FDFF1, 0x68C13BEDA6B126F2, 0x4FF61571FD0FDD2B, 0x12DB6FF5BA049B30],
     [0xF461E2B16558EF27, 0x7BF9EFBBE87366F1, 0x2220BCC65DBE6921, 0x995978965919776C, 0x48BBCC56D59DE4CF],
     [0xD388229521F037AB, 0xCFD03216F3B61A6B, 0x031851CC114C4FE9, 0x83F8A0EDCC4DFA86, 0x846211CE0325CFF4],
     [0x26641CE5D5F50125, 0x0043BAE588C72A1C, 0x2942E5980C276565, 0xD3CE9F79B0F603E8, 0xD89E84D7D7873A36]],
     [0x077459FF96D55446, 0xD4EFB8A438472894, 0x2153C51E43267563, 0xD4AEC651B0A647A8, 0x081524D7FF8512A6]) =
    ([[0x54DB247EB3176F6D, 0xD2AEC73BAF824A36, 0xF84A423E8B43493E, 0x2360724FD85660B0, 0xF38DDC7C5696AF13],
     [0xC1C58CF32C84ACEA, 0x90EF7E5D66476482, 0x7734869A0C3D5F10, 0x910FFFB8D78C0CCA, 0xAD766D28438CC285],
     [0xFEF92C55A1A2E9C1, 0x377BE4EE281D7E2A, 0x000F4DCCC1572B77, 0xBFBF1CBC72FD90F2, 0xBA1F1402CC94E38F],
     [0x8A4D0B84953371B0, 0x40A9D00180C75C94, 0x9D41030D672DBCAF, 0xF3B54D8B8F41307D, 0x86F1A4DDE76A25D6],
     [0x3213DDB554CCD22E, 0x38BA882279714526, 0x742B51D5C017429F, 0x7A04D5390EA9AFBD, 0xC3DC5440F8C79800]],
     [0xF7528C2054CCC0B7, 0x32BE842A73D1E826, 0xF55B51971141529F, 0x4E065D190AA1EF0A, 0xC370544ADBD6B000])"
  by (simp add: keccak_f_round_def theta_closed rho_pi_closed chi_closed iota_closed
      round_constants_def ROTL64_def Let_def
      del: theta.simps rho_pi.simps chi.simps iota.simps)

lemma empty_round_8:
  "keccak_f_round 8
    ([[0x54DB247EB3176F6D, 0xD2AEC73BAF824A36, 0xF84A423E8B43493E, 0x2360724FD85660B0, 0xF38DDC7C5696AF13],
     [0xC1C58CF32C84ACEA, 0x90EF7E5D66476482, 0x7734869A0C3D5F10, 0x910FFFB8D78C0CCA, 0xAD766D28438CC285],
     [0xFEF92C55A1A2E9C1, 0x377BE4EE281D7E2A, 0x000F4DCCC1572B77, 0xBFBF1CBC72FD90F2, 0xBA1F1402CC94E38F],
     [0x8A4D0B84953371B0, 0x40A9D00180C75C94, 0x9D41030D672DBCAF, 0xF3B54D8B8F41307D, 0x86F1A4DDE76A25D6],
     [0x3213DDB554CCD22E, 0x38BA882279714526, 0x742B51D5C017429F, 0x7A04D5390EA9AFBD, 0xC3DC5440F8C79800]],
     [0xF7528C2054CCC0B7, 0x32BE842A73D1E826, 0xF55B51971141529F, 0x4E065D190AA1EF0A, 0xC370544ADBD6B000]) =
    ([[0xF6462AEA67A86E75, 0x66208A66889F1338, 0x7724EC4A48D89935, 0xB4DC029094BA414F, 0xFEA23EF1622B6933],
     [0xA043AE44F84C9084, 0xD044444F63D9D359, 0x2F1B9653BAE68AB2, 0x4B33FFE0A6F337A7, 0x5E1C095AA3BC9FFC],
     [0x9A5B05272CD6CEF8, 0x77E4973F43352878, 0x3A9D5861CF966CDB, 0x7048B2C61845A7FC, 0x2906B8559DC60726],
     [0xE2AB2EFF06847380, 0xAD1A94FFADE46AB9, 0x955094D6D7A630A9, 0xBA0AE134D90D4FD5, 0x4E4F5CA5BF0AF866],
     [0x1E69ED119AACE183, 0x06FA0764E77F4E54, 0xE7180BC4941D1C57, 0xFA880F732426E3C7, 0x9CC3B4EF573024E4]],
     [0xFF6855199AACF1A0, 0x1E5A4347CFDD6CD4, 0xE349BB4C865C1467, 0x99A04E63ACAA32C7, 0x9CD1B6A9126128B0])"
  by (simp add: keccak_f_round_def theta_closed rho_pi_closed chi_closed iota_closed
      round_constants_def ROTL64_def Let_def
      del: theta.simps rho_pi.simps chi.simps iota.simps)

lemma empty_round_9:
  "keccak_f_round 9
    ([[0xF6462AEA67A86E75, 0x66208A66889F1338, 0x7724EC4A48D89935, 0xB4DC029094BA414F, 0xFEA23EF1622B6933],
     [0xA043AE44F84C9084, 0xD044444F63D9D359, 0x2F1B9653BAE68AB2, 0x4B33FFE0A6F337A7, 0x5E1C095AA3BC9FFC],
     [0x9A5B05272CD6CEF8, 0x77E4973F43352878, 0x3A9D5861CF966CDB, 0x7048B2C61845A7FC, 0x2906B8559DC60726],
     [0xE2AB2EFF06847380, 0xAD1A94FFADE46AB9, 0x955094D6D7A630A9, 0xBA0AE134D90D4FD5, 0x4E4F5CA5BF0AF866],
     [0x1E69ED119AACE183, 0x06FA0764E77F4E54, 0xE7180BC4941D1C57, 0xFA880F732426E3C7, 0x9CC3B4EF573024E4]],
     [0xFF6855199AACF1A0, 0x1E5A4347CFDD6CD4, 0xE349BB4C865C1467, 0x99A04E63ACAA32C7, 0x9CD1B6A9126128B0]) =
    ([[0xFB23DA203612EE6F, 0x3949951897EC4A0C, 0x02D510F5B5D470BC, 0x3F7A314DC421C352, 0xA034139846B08DBF],
     [0x1102E083302534C1, 0xC6DAE9627A670C11, 0x6F77BC17E175B3DC, 0x35FF7308D5A90DD3, 0x04367A3D15DD6547],
     [0xECCB65AAB6C6A9ED, 0x9C67555F986F7296, 0xA69F251455AF9791, 0xD279DB94BB855C6C, 0x7EFF260C542B5462],
     [0x57C5F8810E15E9DC, 0x97220DF2F86DEE9D, 0x87BE303D54A61AD8, 0xCADD8D0009AD28A9, 0x3B7E0A0F8152E5CA],
     [0x22CADB480D190FF3, 0x7C76DC5EC1E81BFB, 0x685FE347CDCBB90A, 0x5D8D06DBBDAA237D, 0x17F8FFDA21CD3C64]],
     [0x20C3D949011FABF3, 0x69F6D8C6F1D81B1F, 0x6A1F1A438DCEB50A, 0x7D8E06DABDB8A0EE, 0x5ECCFF5CD10D2C68])"
  by (simp add: keccak_f_round_def theta_closed rho_pi_closed chi_closed iota_closed
      round_constants_def ROTL64_def Let_def
      del: theta.simps rho_pi.simps chi.simps iota.simps)

lemma empty_round_10:
  "keccak_f_round 10
    ([[0xFB23DA203612EE6F, 0x3949951897EC4A0C, 0x02D510F5B5D470BC, 0x3F7A314DC421C352, 0xA034139846B08DBF],
     [0x1102E083302534C1, 0xC6DAE9627A670C11, 0x6F77BC17E175B3DC, 0x35FF7308D5A90DD3, 0x04367A3D15DD6547],
     [0xECCB65AAB6C6A9ED, 0x9C67555F986F7296, 0xA69F251455AF9791, 0xD279DB94BB855C6C, 0x7EFF260C542B5462],
     [0x57C5F8810E15E9DC, 0x97220DF2F86DEE9D, 0x87BE303D54A61AD8, 0xCADD8D0009AD28A9, 0x3B7E0A0F8152E5CA],
     [0x22CADB480D190FF3, 0x7C76DC5EC1E81BFB, 0x685FE347CDCBB90A, 0x5D8D06DBBDAA237D, 0x17F8FFDA21CD3C64]],
     [0x20C3D949011FABF3, 0x69F6D8C6F1D81B1F, 0x6A1F1A438DCEB50A, 0x7D8E06DABDB8A0EE, 0x5ECCFF5CD10D2C68]) =
    ([[0x1419D14D84CCC8A3, 0xF3E835C8F22BA945, 0x5A2465863C4D680D, 0x76B24EC2B4685ED4, 0x4676788F51E2D8F2],
     [0xC5B63BC18BF529E3, 0xBB504346DA6FC263, 0x52C9747449D0F800, 0xF2BDFDAF70C57FCB, 0xB5B427F737BD2D5A],
     [0xC62831C02588C76D, 0x3BF9269CE3121ACE, 0x82C0E0C54815B1AB, 0x1EC1B578AADA4B9F, 0x6148CA2BE4230750],
     [0x91F811F2E466D7C8, 0xE7FD20EF430BB6F3, 0xEBF7BC6DDE6EC184, 0xFE3A1BBB24A34CE3, 0x55908425ADE2530E],
     [0x644A72DB710EE34E, 0x5EF2CC2E0D802078, 0xEDD3D1F74CEEC293, 0xDB5D4663CF47FEEA, 0x1018DE3985C89F55]],
     [0xC54B731A316820C8, 0x4CFEEA2EBE813C18, 0xED73C1EB4CE6C396, 0x1E1E6761FF67DE62, 0x18AC561D0B498345])"
  by (simp add: keccak_f_round_def theta_closed rho_pi_closed chi_closed iota_closed
      round_constants_def ROTL64_def Let_def
      del: theta.simps rho_pi.simps chi.simps iota.simps)

lemma empty_round_11:
  "keccak_f_round 11
    ([[0x1419D14D84CCC8A3, 0xF3E835C8F22BA945, 0x5A2465863C4D680D, 0x76B24EC2B4685ED4, 0x4676788F51E2D8F2],
     [0xC5B63BC18BF529E3, 0xBB504346DA6FC263, 0x52C9747449D0F800, 0xF2BDFDAF70C57FCB, 0xB5B427F737BD2D5A],
     [0xC62831C02588C76D, 0x3BF9269CE3121ACE, 0x82C0E0C54815B1AB, 0x1EC1B578AADA4B9F, 0x6148CA2BE4230750],
     [0x91F811F2E466D7C8, 0xE7FD20EF430BB6F3, 0xEBF7BC6DDE6EC184, 0xFE3A1BBB24A34CE3, 0x55908425ADE2530E],
     [0x644A72DB710EE34E, 0x5EF2CC2E0D802078, 0xEDD3D1F74CEEC293, 0xDB5D4663CF47FEEA, 0x1018DE3985C89F55]],
     [0xC54B731A316820C8, 0x4CFEEA2EBE813C18, 0xED73C1EB4CE6C396, 0x1E1E6761FF67DE62, 0x18AC561D0B498345]) =
    ([[0x41A22E0D267954C8, 0x695B94576C84037A, 0xF37AC6A6FF5C3603, 0x73BBC0E747BAA6C2, 0x95174FE810A459CE],
     [0x245CE012066AFCC3, 0x9F1F9B765C5EE370, 0x0EA4A100AB693AC8, 0x58C363BB7133501B, 0xA019E29AF04691BC],
     [0x133D59E43795FE5C, 0xB752CC66CB2DDC39, 0x94E2BCA0DE79943F, 0x51BF0B37E0EBB026, 0xF48DC59D84829F76],
     [0x134C192A6CC9AB99, 0x208DB8386052F6E2, 0x7AF7D90F7D30DB87, 0x9A94A0636B332F69, 0xBC78D1145324B3A3],
     [0x7ADB1CB3AD9DC990, 0x08EA405F44CB9090, 0x806D634E75515CCF, 0x7EC15214C3C63596, 0x9771740FF365EEC2]],
     [0x7BCE1BB3ACADCF9F, 0x1EE858FFCEC5B090, 0x017D470D4570968F, 0x164F59A4CF4E348B, 0x93513443B125DEC2])"
  by (simp add: keccak_f_round_def theta_closed rho_pi_closed chi_closed iota_closed
      round_constants_def ROTL64_def Let_def
      del: theta.simps rho_pi.simps chi.simps iota.simps)

lemma empty_round_12:
  "keccak_f_round 12
    ([[0x41A22E0D267954C8, 0x695B94576C84037A, 0xF37AC6A6FF5C3603, 0x73BBC0E747BAA6C2, 0x95174FE810A459CE],
     [0x245CE012066AFCC3, 0x9F1F9B765C5EE370, 0x0EA4A100AB693AC8, 0x58C363BB7133501B, 0xA019E29AF04691BC],
     [0x133D59E43795FE5C, 0xB752CC66CB2DDC39, 0x94E2BCA0DE79943F, 0x51BF0B37E0EBB026, 0xF48DC59D84829F76],
     [0x134C192A6CC9AB99, 0x208DB8386052F6E2, 0x7AF7D90F7D30DB87, 0x9A94A0636B332F69, 0xBC78D1145324B3A3],
     [0x7ADB1CB3AD9DC990, 0x08EA405F44CB9090, 0x806D634E75515CCF, 0x7EC15214C3C63596, 0x9771740FF365EEC2]],
     [0x7BCE1BB3ACADCF9F, 0x1EE858FFCEC5B090, 0x017D470D4570968F, 0x164F59A4CF4E348B, 0x93513443B125DEC2]) =
    ([[0xF8F811BD5D802DA4, 0x7E897BF07EFBB8E7, 0x49A27E148D99CEF1, 0x20E63E2CCBDBE6C6, 0x84B0E25596A69D12],
     [0x8E505A5B78128674, 0xC122964AC418B02B, 0xFAA80E0229A20459, 0x5BE0E143AC0A367F, 0xBAA5388ACAE237D8],
     [0xA1138021DC10095B, 0xFC6142A25FF7240A, 0xAFC519776A761921, 0x612B4DF437870F2C, 0x80535B83DFBB28CA],
     [0xAC1EB74D85B12181, 0xC87DA1D9CBE63F37, 0xEA427C6635545213, 0x250F26FB1DC3D7D0, 0xA05872A8F88D3348],
     [0xA11B174DE6073512, 0x962520188ABDB229, 0x5B15E7A24B57E2FB, 0x40296C73EF042F2C, 0xD5CC6ACA51B6E4F1]],
     [0xE9CBD26FB7473510, 0xB60F384C8ABDAE2D, 0xD8D5E52A5B5DA22B, 0x682AFC5649453E2C, 0xC3C842CA590E6EDC])"
  by (simp add: keccak_f_round_def theta_closed rho_pi_closed chi_closed iota_closed
      round_constants_def ROTL64_def Let_def
      del: theta.simps rho_pi.simps chi.simps iota.simps)

lemma empty_round_13:
  "keccak_f_round 13
    ([[0xF8F811BD5D802DA4, 0x7E897BF07EFBB8E7, 0x49A27E148D99CEF1, 0x20E63E2CCBDBE6C6, 0x84B0E25596A69D12],
     [0x8E505A5B78128674, 0xC122964AC418B02B, 0xFAA80E0229A20459, 0x5BE0E143AC0A367F, 0xBAA5388ACAE237D8],
     [0xA1138021DC10095B, 0xFC6142A25FF7240A, 0xAFC519776A761921, 0x612B4DF437870F2C, 0x80535B83DFBB28CA],
     [0xAC1EB74D85B12181, 0xC87DA1D9CBE63F37, 0xEA427C6635545213, 0x250F26FB1DC3D7D0, 0xA05872A8F88D3348],
     [0xA11B174DE6073512, 0x962520188ABDB229, 0x5B15E7A24B57E2FB, 0x40296C73EF042F2C, 0xD5CC6ACA51B6E4F1]],
     [0xE9CBD26FB7473510, 0xB60F384C8ABDAE2D, 0xD8D5E52A5B5DA22B, 0x682AFC5649453E2C, 0xC3C842CA590E6EDC]) =
    ([[0x5BBE8F503BEB3736, 0x0C41048B29CFC1EF, 0xC6B1EB3207944DFA, 0xC4554483EC52DE5D, 0xDD54B1D96BEE07AC],
     [0xDCEBF6AD73F54D7F, 0x31B049BDCDA5090A, 0xB9282364625DBB04, 0x891C59FA05421868, 0x16160E291D4541BE],
     [0xEE8D6A7544A3B961, 0x6F3D0B5232B2C4A6, 0x1BA6829EF4B36A8F, 0x9F70DEE775FA8022, 0x4E620472BF350331],
     [0x53224EB247643FF8, 0xE4D547DF68E56D61, 0xB502AE355D5107F3, 0xB14C880E8EF8B9EB, 0x9AE315E9020302E6],
     [0x6B88F91F893701FE, 0x62FEFE080DE16634, 0xAB316365123A05A4, 0x746E5093CBCF81F9, 0x4A9ABCD18457EDC9]],
     [0xEA89F83A9B3D087E, 0x36B0EE90CD24E67F, 0xA1B1C925122A0FA4, 0xD46F10B9D0E781CF, 0x5EAABA51C0570BC8])"
  by (simp add: keccak_f_round_def theta_closed rho_pi_closed chi_closed iota_closed
      round_constants_def ROTL64_def Let_def
      del: theta.simps rho_pi.simps chi.simps iota.simps)

lemma empty_round_14:
  "keccak_f_round 14
    ([[0x5BBE8F503BEB3736, 0x0C41048B29CFC1EF, 0xC6B1EB3207944DFA, 0xC4554483EC52DE5D, 0xDD54B1D96BEE07AC],
     [0xDCEBF6AD73F54D7F, 0x31B049BDCDA5090A, 0xB9282364625DBB04, 0x891C59FA05421868, 0x16160E291D4541BE],
     [0xEE8D6A7544A3B961, 0x6F3D0B5232B2C4A6, 0x1BA6829EF4B36A8F, 0x9F70DEE775FA8022, 0x4E620472BF350331],
     [0x53224EB247643FF8, 0xE4D547DF68E56D61, 0xB502AE355D5107F3, 0xB14C880E8EF8B9EB, 0x9AE315E9020302E6],
     [0x6B88F91F893701FE, 0x62FEFE080DE16634, 0xAB316365123A05A4, 0x746E5093CBCF81F9, 0x4A9ABCD18457EDC9]],
     [0xEA89F83A9B3D087E, 0x36B0EE90CD24E67F, 0xA1B1C925122A0FA4, 0xD46F10B9D0E781CF, 0x5EAABA51C0570BC8]) =
    ([[0x0720748F13C8571E, 0xDCD7E9C9FE8EB377, 0x8F2A8F1A3A19563E, 0xD851EF067B35BE43, 0x3360FF55764637F9],
     [0xFA15484511CE7E66, 0xD3145468C76B3E40, 0x9AE0280B44CA7712, 0xE5410833CC9D42E5, 0x0E3C01426C7B9F56],
     [0x525517BA9E0B99F3, 0xF77CB5528DD02517, 0x5460F894ACE7DCA8, 0x1D13FB762B86BE2C, 0xFF20251697AE5A78],
     [0xCB3E7C0E5343573C, 0x193E336805B113C5, 0x1EA54951FD9F5B2B, 0xBBDB8A967E32B3FD, 0xF7E451127B1AEB4A],
     [0x1FDB2CA1C5F531A9, 0x0E18D27FAA6621E7, 0x8883F05D4A9B9C70, 0xAC3FBBDF680AFE7E, 0x3E71852DC6B0DF1B]],
     [0x8F1808A181FCADB9, 0x2B2CD17D8B226369, 0x9AC3B47DCE2B9D71, 0x2D37B35F6946DEDE, 0x1E555471CCB29D5B])"
  by (simp add: keccak_f_round_def theta_closed rho_pi_closed chi_closed iota_closed
      round_constants_def ROTL64_def Let_def
      del: theta.simps rho_pi.simps chi.simps iota.simps)

lemma empty_round_15:
  "keccak_f_round 15
    ([[0x0720748F13C8571E, 0xDCD7E9C9FE8EB377, 0x8F2A8F1A3A19563E, 0xD851EF067B35BE43, 0x3360FF55764637F9],
     [0xFA15484511CE7E66, 0xD3145468C76B3E40, 0x9AE0280B44CA7712, 0xE5410833CC9D42E5, 0x0E3C01426C7B9F56],
     [0x525517BA9E0B99F3, 0xF77CB5528DD02517, 0x5460F894ACE7DCA8, 0x1D13FB762B86BE2C, 0xFF20251697AE5A78],
     [0xCB3E7C0E5343573C, 0x193E336805B113C5, 0x1EA54951FD9F5B2B, 0xBBDB8A967E32B3FD, 0xF7E451127B1AEB4A],
     [0x1FDB2CA1C5F531A9, 0x0E18D27FAA6621E7, 0x8883F05D4A9B9C70, 0xAC3FBBDF680AFE7E, 0x3E71852DC6B0DF1B]],
     [0x8F1808A181FCADB9, 0x2B2CD17D8B226369, 0x9AC3B47DCE2B9D71, 0x2D37B35F6946DEDE, 0x1E555471CCB29D5B]) =
    ([[0x11FB6EF82465089E, 0x0DF438788BAE00DD, 0x5945D6F5E05BA218, 0x8C77C62985FB70B6, 0x1FE24674D501EFC5],
     [0x37F72ADD0803E3FF, 0xFD6FB033D6384D34, 0x356C5A2547B15884, 0x60E9F93C51B4E8DE, 0x891299574E96AF0C],
     [0x128FBE0942283BAD, 0xA464DA76C17CA5B6, 0xC6098210FB199A07, 0x190B10EC0B487E9F, 0x6C3F48B58DBFEC05],
     [0x8F4F0D82659EF9A1, 0x1E78CE5A2D7C4C41, 0x00227D772E7AD88F, 0x7F51658CAA0DEF5F, 0xCD4CA313A20C4B59],
     [0xE7336F3D49EEE48F, 0x8311D7D86A64CFD3, 0x67EC265FC449D816, 0xFE85330D8C400429, 0x7211120988F6026B]],
     [0x83DF4F3ACD75F48B, 0x9B128FF86364EF7A, 0x67FCA69FE6FFD104, 0x7F4B7E3FC941F0A9, 0x6A1192C9AAF6091B])"
  by (simp add: keccak_f_round_def theta_closed rho_pi_closed chi_closed iota_closed
      round_constants_def ROTL64_def Let_def
      del: theta.simps rho_pi.simps chi.simps iota.simps)

lemma empty_round_16:
  "keccak_f_round 16
    ([[0x11FB6EF82465089E, 0x0DF438788BAE00DD, 0x5945D6F5E05BA218, 0x8C77C62985FB70B6, 0x1FE24674D501EFC5],
     [0x37F72ADD0803E3FF, 0xFD6FB033D6384D34, 0x356C5A2547B15884, 0x60E9F93C51B4E8DE, 0x891299574E96AF0C],
     [0x128FBE0942283BAD, 0xA464DA76C17CA5B6, 0xC6098210FB199A07, 0x190B10EC0B487E9F, 0x6C3F48B58DBFEC05],
     [0x8F4F0D82659EF9A1, 0x1E78CE5A2D7C4C41, 0x00227D772E7AD88F, 0x7F51658CAA0DEF5F, 0xCD4CA313A20C4B59],
     [0xE7336F3D49EEE48F, 0x8311D7D86A64CFD3, 0x67EC265FC449D816, 0xFE85330D8C400429, 0x7211120988F6026B]],
     [0x83DF4F3ACD75F48B, 0x9B128FF86364EF7A, 0x67FCA69FE6FFD104, 0x7F4B7E3FC941F0A9, 0x6A1192C9AAF6091B]) =
    ([[0xDC179B138E9B5AFA, 0x64859BA4DC121EF4, 0xAF47174888D27A13, 0xAECCAF031E77237F, 0xF69DDDD4252FAAEB],
     [0xB5A1A870C4CBD9EF, 0x58A7BA3AA3974AD5, 0x01437F1648F4BB45, 0xDC14373FFFA908BC, 0x28CD01E12DB1F71B],
     [0xB42E17550A159A65, 0xDC5BDE8E8C8A0EC5, 0x3098598A829F4027, 0x766F59CB3BDD0440, 0x712BC3E9EE62C6B7],
     [0x59E171DD0CB2A574, 0x534519AA4099A2FA, 0x8A049F9AA3E260A9, 0x625D334A56B0D0CB, 0xF5A44709ED4A3727],
     [0x9A387BEEF2CF61ED, 0x81919953C537EAA4, 0x44753218D4837DF8, 0x9F83C135037C97F9, 0x10C89279136B00D1]],
     [0xDE145BEEF24F74B5, 0x901311F0E64F68A1, 0x443D2050C08075F8, 0x519788B3E378E3DD, 0x10CB9269176B08D1])"
  by (simp add: keccak_f_round_def theta_closed rho_pi_closed chi_closed iota_closed
      round_constants_def ROTL64_def Let_def
      del: theta.simps rho_pi.simps chi.simps iota.simps)

lemma empty_round_17:
  "keccak_f_round 17
    ([[0xDC179B138E9B5AFA, 0x64859BA4DC121EF4, 0xAF47174888D27A13, 0xAECCAF031E77237F, 0xF69DDDD4252FAAEB],
     [0xB5A1A870C4CBD9EF, 0x58A7BA3AA3974AD5, 0x01437F1648F4BB45, 0xDC14373FFFA908BC, 0x28CD01E12DB1F71B],
     [0xB42E17550A159A65, 0xDC5BDE8E8C8A0EC5, 0x3098598A829F4027, 0x766F59CB3BDD0440, 0x712BC3E9EE62C6B7],
     [0x59E171DD0CB2A574, 0x534519AA4099A2FA, 0x8A049F9AA3E260A9, 0x625D334A56B0D0CB, 0xF5A44709ED4A3727],
     [0x9A387BEEF2CF61ED, 0x81919953C537EAA4, 0x44753218D4837DF8, 0x9F83C135037C97F9, 0x10C89279136B00D1]],
     [0xDE145BEEF24F74B5, 0x901311F0E64F68A1, 0x443D2050C08075F8, 0x519788B3E378E3DD, 0x10CB9269176B08D1]) =
    ([[0x77529FE95B0653A3, 0xA277C6135BFD77C3, 0xB36B57927EC3B355, 0x488A5C2ABA3491D0, 0xF7DBF827F4259108],
     [0xC8B15F6E6EF0E760, 0xE6CF8C72462EB0C4, 0xEB18111BEA471840, 0xC9CA77B821E01A82, 0x168DE5CC16B987C2],
     [0x36591E181616AE3A, 0x0A197994825E2320, 0xBA3F68C30567CB64, 0xCB178806E7F1661A, 0x7340FCC3C06AD4D5],
     [0xBC94168840BF949E, 0xD5D462A37ED9D4D3, 0x3F6A9DE425AAABCD, 0xC715EF6A912085BD, 0xBA1A41E995475F33],
     [0x9BCC83AC58797E7A, 0xEF5D6BBA0074A796, 0x4E2CF75A62260D0A, 0x599962E9608A05B0, 0x9C2E57FB427CBD30]],
     [0x9BCE03EC387B6E72, 0xFF0C6B1F18FDE566, 0xEE0AEA5A6056350E, 0x5A5962ED588947F2, 0xF82E3FE842F83C34])"
  by (simp add: keccak_f_round_def theta_closed rho_pi_closed chi_closed iota_closed
      round_constants_def ROTL64_def Let_def
      del: theta.simps rho_pi.simps chi.simps iota.simps)

lemma empty_round_18:
  "keccak_f_round 18
    ([[0x77529FE95B0653A3, 0xA277C6135BFD77C3, 0xB36B57927EC3B355, 0x488A5C2ABA3491D0, 0xF7DBF827F4259108],
     [0xC8B15F6E6EF0E760, 0xE6CF8C72462EB0C4, 0xEB18111BEA471840, 0xC9CA77B821E01A82, 0x168DE5CC16B987C2],
     [0x36591E181616AE3A, 0x0A197994825E2320, 0xBA3F68C30567CB64, 0xCB178806E7F1661A, 0x7340FCC3C06AD4D5],
     [0xBC94168840BF949E, 0xD5D462A37ED9D4D3, 0x3F6A9DE425AAABCD, 0xC715EF6A912085BD, 0xBA1A41E995475F33],
     [0x9BCC83AC58797E7A, 0xEF5D6BBA0074A796, 0x4E2CF75A62260D0A, 0x599962E9608A05B0, 0x9C2E57FB427CBD30]],
     [0x9BCE03EC387B6E72, 0xFF0C6B1F18FDE566, 0xEE0AEA5A6056350E, 0x5A5962ED588947F2, 0xF82E3FE842F83C34]) =
    ([[0xAB043416649ADF93, 0x4D9AD663F2E5851D, 0x8EB64F72806003FE, 0xBD758BA006CFD37B, 0x2F7DEC8E1C738548],
     [0xA97C313CFF285978, 0xCEFEDF94FBC3C101, 0x331EF7CA2FD4070B, 0x9D3C6AE09C226A46, 0x30F494B333C2A819],
     [0x5B220142B8288566, 0xA1D5762A9BC7277F, 0x0FB13E506869A28D, 0x55FA886C9DD24C35, 0xA5A049D1C4DE74F1],
     [0x185E38B522B62000, 0xD6DE7C012E3FE9A5, 0xBCCF085695344C8A, 0x7DCEC7E9E0B07172, 0xB82255C02454A756],
     [0xCB99D945421FAEBE, 0x25894AEE5C860C2C, 0x4CA6F7DF3DB5F80C, 0x6625C595EC20C2C8, 0x9AAEA508C2B76BD9]],
     [0x1BBD4C54613F7FAF, 0x069942EE9C8E0ACE, 0xD42CD5FD2FA2D11D, 0x67348DC1CD28D6EE, 0x9EAEA7A25E376B99])"
  by (simp add: keccak_f_round_def theta_closed rho_pi_closed chi_closed iota_closed
      round_constants_def ROTL64_def Let_def
      del: theta.simps rho_pi.simps chi.simps iota.simps)

lemma empty_round_19:
  "keccak_f_round 19
    ([[0xAB043416649ADF93, 0x4D9AD663F2E5851D, 0x8EB64F72806003FE, 0xBD758BA006CFD37B, 0x2F7DEC8E1C738548],
     [0xA97C313CFF285978, 0xCEFEDF94FBC3C101, 0x331EF7CA2FD4070B, 0x9D3C6AE09C226A46, 0x30F494B333C2A819],
     [0x5B220142B8288566, 0xA1D5762A9BC7277F, 0x0FB13E506869A28D, 0x55FA886C9DD24C35, 0xA5A049D1C4DE74F1],
     [0x185E38B522B62000, 0xD6DE7C012E3FE9A5, 0xBCCF085695344C8A, 0x7DCEC7E9E0B07172, 0xB82255C02454A756],
     [0xCB99D945421FAEBE, 0x25894AEE5C860C2C, 0x4CA6F7DF3DB5F80C, 0x6625C595EC20C2C8, 0x9AAEA508C2B76BD9]],
     [0x1BBD4C54613F7FAF, 0x069942EE9C8E0ACE, 0xD42CD5FD2FA2D11D, 0x67348DC1CD28D6EE, 0x9EAEA7A25E376B99]) =
    ([[0x692D774028A557F8, 0x068E6AA03EED2C60, 0x3C001941F88C34AB, 0x0837FAA91A4599AF, 0x47CA9BD7D9CB9877],
     [0x9568BEAD0CCCA388, 0xC51EABAB0987AB67, 0x4248941238BCE4E3, 0x1F2DF9A069CBF77E, 0x002D4D0BF9566603],
     [0x8E0EAABBD690D904, 0xD23E9636A031204E, 0xA3D132E9694DC2E6, 0xC63822DB9A379BE7, 0x3802288CF910E389],
     [0xF40C1EDCF888324B, 0x6B3E292920D63F93, 0x8190CE3FAE26E78C, 0xDF6AF1D961A2CAC9, 0x68451E1FBDCE606A],
     [0xA8F8241F1CD94A18, 0x6796E7C8EAF712F2, 0x239410FE61D4CAA4, 0x1759F46E771EE9CF, 0xFCD67513E412A22D]],
     [0x20F834381DD9821C, 0x73F703C8E4F433A9, 0x8B14126F61F4D8A4, 0x1771F4466ED7E9DF, 0xAFD176D30436938C])"
  by (simp add: keccak_f_round_def theta_closed rho_pi_closed chi_closed iota_closed
      round_constants_def ROTL64_def Let_def
      del: theta.simps rho_pi.simps chi.simps iota.simps)

lemma empty_round_20:
  "keccak_f_round 20
    ([[0x692D774028A557F8, 0x068E6AA03EED2C60, 0x3C001941F88C34AB, 0x0837FAA91A4599AF, 0x47CA9BD7D9CB9877],
     [0x9568BEAD0CCCA388, 0xC51EABAB0987AB67, 0x4248941238BCE4E3, 0x1F2DF9A069CBF77E, 0x002D4D0BF9566603],
     [0x8E0EAABBD690D904, 0xD23E9636A031204E, 0xA3D132E9694DC2E6, 0xC63822DB9A379BE7, 0x3802288CF910E389],
     [0xF40C1EDCF888324B, 0x6B3E292920D63F93, 0x8190CE3FAE26E78C, 0xDF6AF1D961A2CAC9, 0x68451E1FBDCE606A],
     [0xA8F8241F1CD94A18, 0x6796E7C8EAF712F2, 0x239410FE61D4CAA4, 0x1759F46E771EE9CF, 0xFCD67513E412A22D]],
     [0x20F834381DD9821C, 0x73F703C8E4F433A9, 0x8B14126F61F4D8A4, 0x1771F4466ED7E9DF, 0xAFD176D30436938C]) =
    ([[0xDF77E5829E126EC3, 0x185440C1F34C8C25, 0xDFB278771F8FDA79, 0xC32021ED474FD347, 0x78970DD85698EF0F],
     [0xEC6ED35B8A34E844, 0xA455A531B19D0C21, 0x7AA86AD769B437E3, 0x34F796D7B4491D6E, 0x8196381D1D94B9B4],
     [0x8EFFD597C2381C97, 0x5310012F6070AEF7, 0x329CBFA62C1F72D0, 0x8E9A326E532A1CBD, 0x5AEC999636894446],
     [0x486DA6EA54153868, 0x65068425A1F3C7C3, 0xDC1F7CFA1038B42F, 0xCFD4D0ABA0EE5F5E, 0x1A3C29BBAD31B6FA],
     [0xE4CDE333902744BC, 0x9FEB2E99F827E3BB, 0x22C34B1A36DB63F7, 0x5D73425BFD8B751C, 0xDA5FFE64E4045065]],
     [0xC4C9321596FF44B8, 0xC6DB2ED93107F3BB, 0xA2CFFBBE36DFE195, 0x59F3424AEF707184, 0xD84DF2ACC504E366])"
  by (simp add: keccak_f_round_def theta_closed rho_pi_closed chi_closed iota_closed
      round_constants_def ROTL64_def Let_def
      del: theta.simps rho_pi.simps chi.simps iota.simps)

lemma empty_round_21:
  "keccak_f_round 21
    ([[0xDF77E5829E126EC3, 0x185440C1F34C8C25, 0xDFB278771F8FDA79, 0xC32021ED474FD347, 0x78970DD85698EF0F],
     [0xEC6ED35B8A34E844, 0xA455A531B19D0C21, 0x7AA86AD769B437E3, 0x34F796D7B4491D6E, 0x8196381D1D94B9B4],
     [0x8EFFD597C2381C97, 0x5310012F6070AEF7, 0x329CBFA62C1F72D0, 0x8E9A326E532A1CBD, 0x5AEC999636894446],
     [0x486DA6EA54153868, 0x65068425A1F3C7C3, 0xDC1F7CFA1038B42F, 0xCFD4D0ABA0EE5F5E, 0x1A3C29BBAD31B6FA],
     [0xE4CDE333902744BC, 0x9FEB2E99F827E3BB, 0x22C34B1A36DB63F7, 0x5D73425BFD8B751C, 0xDA5FFE64E4045065]],
     [0xC4C9321596FF44B8, 0xC6DB2ED93107F3BB, 0xA2CFFBBE36DFE195, 0x59F3424AEF707184, 0xD84DF2ACC504E366]) =
    ([[0x1F42A34DD8D84F7B, 0xD50C1E60226EB7B3, 0xCD46B1C5BEB6A1E7, 0x3CB6A997A50C3966, 0x49879B773A68E4CE],
     [0x212F019117C504C9, 0x2B78285E6E4C8F56, 0x3C5097E81717DD0E, 0x3726E6EFA2FF8D8B, 0x344D2D0EDEC7380C],
     [0xB7C2A735F39D7F1A, 0x7B70DF7E3531352E, 0x200951FB4061AA93, 0xFD799774015EE1D0, 0x11E511BC9300B288],
     [0x9C7506F787EB9CF9, 0x86409BCA6503C00C, 0xCE5AE72FCB0C7E87, 0x1AE40A3F2F830D31, 0x4873A427E5E86CD1],
     [0x87D6025726BB4076, 0x8F4F68FDA6D2B6D6, 0xACF84B418DF59E36, 0x18B63857170B493E, 0x686BAFA0DE56E6E5]],
     [0xC7668657679A4857, 0x9C4D58FD94D0F7DE, 0xCCB88C49C5E18E77, 0x9FB238003683412C, 0x7062F7084E16516D])"
  by (simp add: keccak_f_round_def theta_closed rho_pi_closed chi_closed iota_closed
      round_constants_def ROTL64_def Let_def
      del: theta.simps rho_pi.simps chi.simps iota.simps)

lemma empty_round_22:
  "keccak_f_round 22
    ([[0x1F42A34DD8D84F7B, 0xD50C1E60226EB7B3, 0xCD46B1C5BEB6A1E7, 0x3CB6A997A50C3966, 0x49879B773A68E4CE],
     [0x212F019117C504C9, 0x2B78285E6E4C8F56, 0x3C5097E81717DD0E, 0x3726E6EFA2FF8D8B, 0x344D2D0EDEC7380C],
     [0xB7C2A735F39D7F1A, 0x7B70DF7E3531352E, 0x200951FB4061AA93, 0xFD799774015EE1D0, 0x11E511BC9300B288],
     [0x9C7506F787EB9CF9, 0x86409BCA6503C00C, 0xCE5AE72FCB0C7E87, 0x1AE40A3F2F830D31, 0x4873A427E5E86CD1],
     [0x87D6025726BB4076, 0x8F4F68FDA6D2B6D6, 0xACF84B418DF59E36, 0x18B63857170B493E, 0x686BAFA0DE56E6E5]],
     [0xC7668657679A4857, 0x9C4D58FD94D0F7DE, 0xCCB88C49C5E18E77, 0x9FB238003683412C, 0x7062F7084E16516D]) =
    ([[0x447229EB65555906, 0xC0CE6CF4B9E2681E, 0x5E0BDEEB25DA2C15, 0x6A411A3E00CF77D5, 0xB159B2F491440CEA],
     [0xB92124B5513762B9, 0x7F3BB61F32A25A2C, 0x4E19EC5F5802C217, 0x88B6E226F5AE16D6, 0x1FAC00B54F67B4AC],
     [0xD09FD8BA4B94242E, 0x0B16053447E1B606, 0xBBCCA426CFAF156E, 0xD05BD0E0EFBD8C98, 0x60E879FD6CCE554E],
     [0x195B73B592CB4BA4, 0xE5496D4741D01641, 0x14967BE326C27A1C, 0x140407C68730F79B, 0xED336CF92B0081F5],
     [0xEA3F1F1E9C3BBB66, 0x630A7B22E1CAE28D, 0x42DBC8E5B7BCED4A, 0xFF11CD5AA3338758, 0xFCE31B35F4008D00]],
     [0xEA0E9FDE9E0FBE24, 0xDE0E7A32E9CAF2B9, 0x4239FAE0A37CA5CB, 0xFD1D4990A93CB57C, 0xE8E37B1595C0CD99])"
  by (simp add: keccak_f_round_def theta_closed rho_pi_closed chi_closed iota_closed
      round_constants_def ROTL64_def Let_def
      del: theta.simps rho_pi.simps chi.simps iota.simps)

lemma empty_round_23:
  "keccak_f_round 23
    ([[0x447229EB65555906, 0xC0CE6CF4B9E2681E, 0x5E0BDEEB25DA2C15, 0x6A411A3E00CF77D5, 0xB159B2F491440CEA],
     [0xB92124B5513762B9, 0x7F3BB61F32A25A2C, 0x4E19EC5F5802C217, 0x88B6E226F5AE16D6, 0x1FAC00B54F67B4AC],
     [0xD09FD8BA4B94242E, 0x0B16053447E1B606, 0xBBCCA426CFAF156E, 0xD05BD0E0EFBD8C98, 0x60E879FD6CCE554E],
     [0x195B73B592CB4BA4, 0xE5496D4741D01641, 0x14967BE326C27A1C, 0x140407C68730F79B, 0xED336CF92B0081F5],
     [0xEA3F1F1E9C3BBB66, 0x630A7B22E1CAE28D, 0x42DBC8E5B7BCED4A, 0xFF11CD5AA3338758, 0xFCE31B35F4008D00]],
     [0xEA0E9FDE9E0FBE24, 0xDE0E7A32E9CAF2B9, 0x4239FAE0A37CA5CB, 0xFD1D4990A93CB57C, 0xE8E37B1595C0CD99]) =
    ([[0x66D71EBFF8C6FFA7, 0x62D661A05647C151, 0xFA493BE44DFF80F5, 0x4A43F8804B0AD882, 0xE2F36B34B7BE6652],
     [0xFF875921CACC9566, 0x80D97B5776B3BA89, 0x28DEBD55FC6A313B, 0x03AC3D19F1E48ECC, 0x78193AECC1E434E9],
     [0xC287A923AFE81E79, 0x21684AE301601F33, 0x282E7E469E09E75F, 0xD17D1ED2C282B6B8, 0xF050E0D2ADAF434E],
     [0x5375F6FB6AA989B0, 0xC2C6B96032FAF11E, 0x63684DD3F055A1B2, 0xD908398B988EC2B2, 0x913F10903E0BD326],
     [0x33FC34664D479817, 0x2B715C1A078FDE58, 0x140B7C9251369779, 0x857343A7AABDEB5E, 0x92136E0EFB7B70E5]],
     [0x37F634E64D379997, 0x8BE55F5FA906BE5C, 0x0E0B5882007483D8, 0xA0975347AEB9624C, 0x1A1225175B7B56AD])"
  by (simp add: keccak_f_round_def theta_closed rho_pi_closed chi_closed iota_closed
      round_constants_def ROTL64_def Let_def
      del: theta.simps rho_pi.simps chi.simps iota.simps)

lemmas empty_rounds =
  empty_round_0 empty_round_1 empty_round_2 empty_round_3 empty_round_4 empty_round_5
  empty_round_6 empty_round_7 empty_round_8 empty_round_9 empty_round_10 empty_round_11
  empty_round_12 empty_round_13 empty_round_14 empty_round_15 empty_round_16 empty_round_17
  empty_round_18 empty_round_19 empty_round_20 empty_round_21 empty_round_22 empty_round_23

lemma keccak_empty:
  "keccak
     [[0x0000000000000006, 0x0000000000000000, 0x0000000000000000, 0x0000000000000000, 0x0000000000000000],
     [0x0000000000000000, 0x0000000000000000, 0x0000000000000000, 0x0000000000000000, 0x0000000000000000],
     [0x0000000000000000, 0x0000000000000000, 0x0000000000000000, 0x0000000000000000, 0x0000000000000000],
     [0x0000000000000000, 0x8000000000000000, 0x0000000000000000, 0x0000000000000000, 0x0000000000000000],
     [0x0000000000000000, 0x0000000000000000, 0x0000000000000000, 0x0000000000000000, 0x0000000000000000]] False =
    ([[0x66D71EBFF8C6FFA7, 0x62D661A05647C151, 0xFA493BE44DFF80F5, 0x4A43F8804B0AD882, 0xE2F36B34B7BE6652],
     [0xFF875921CACC9566, 0x80D97B5776B3BA89, 0x28DEBD55FC6A313B, 0x03AC3D19F1E48ECC, 0x78193AECC1E434E9],
     [0xC287A923AFE81E79, 0x21684AE301601F33, 0x282E7E469E09E75F, 0xD17D1ED2C282B6B8, 0xF050E0D2ADAF434E],
     [0x5375F6FB6AA989B0, 0xC2C6B96032FAF11E, 0x63684DD3F055A1B2, 0xD908398B988EC2B2, 0x913F10903E0BD326],
     [0x33FC34664D479817, 0x2B715C1A078FDE58, 0x140B7C9251369779, 0x857343A7AABDEB5E, 0x92136E0EFB7B70E5]],
     [])"
proof -
  have "fold keccak_f_round [0..<24]
          ([[0x0000000000000006, 0x0000000000000000, 0x0000000000000000, 0x0000000000000000, 0x0000000000000000],
           [0x0000000000000000, 0x0000000000000000, 0x0000000000000000, 0x0000000000000000, 0x0000000000000000],
           [0x0000000000000000, 0x0000000000000000, 0x0000000000000000, 0x0000000000000000, 0x0000000000000000],
           [0x0000000000000000, 0x8000000000000000, 0x0000000000000000, 0x0000000000000000, 0x0000000000000000],
           [0x0000000000000000, 0x0000000000000000, 0x0000000000000000, 0x0000000000000000, 0x0000000000000000]],
           [0, 0, 0, 0, 0]) =
        ([[0x66D71EBFF8C6FFA7, 0x62D661A05647C151, 0xFA493BE44DFF80F5, 0x4A43F8804B0AD882, 0xE2F36B34B7BE6652],
         [0xFF875921CACC9566, 0x80D97B5776B3BA89, 0x28DEBD55FC6A313B, 0x03AC3D19F1E48ECC, 0x78193AECC1E434E9],
         [0xC287A923AFE81E79, 0x21684AE301601F33, 0x282E7E469E09E75F, 0xD17D1ED2C282B6B8, 0xF050E0D2ADAF434E],
         [0x5375F6FB6AA989B0, 0xC2C6B96032FAF11E, 0x63684DD3F055A1B2, 0xD908398B988EC2B2, 0x913F10903E0BD326],
         [0x33FC34664D479817, 0x2B715C1A078FDE58, 0x140B7C9251369779, 0x857343A7AABDEB5E, 0x92136E0EFB7B70E5]],
         [0x37F634E64D379997, 0x8BE55F5FA906BE5C, 0x0E0B5882007483D8, 0xA0975347AEB9624C, 0x1A1225175B7B56AD])"
    by (simp only: upt24 fold_simps comp_apply id_apply empty_rounds)
  then show ?thesis
    by (simp add: prod_eq_iff keccak_lanes keccak_quiet KECCAK_ROUNDS_def zero_row)
qed

lemma sponge_empty:
  "sponge False [] (replicate 5 (replicate 5 0)) =
    ([[0x66D71EBFF8C6FFA7, 0x62D661A05647C151, 0xFA493BE44DFF80F5, 0x4A43F8804B0AD882, 0xE2F36B34B7BE6652],
     [0xFF875921CACC9566, 0x80D97B5776B3BA89, 0x28DEBD55FC6A313B, 0x03AC3D19F1E48ECC, 0x78193AECC1E434E9],
     [0xC287A923AFE81E79, 0x21684AE301601F33, 0x282E7E469E09E75F, 0xD17D1ED2C282B6B8, 0xF050E0D2ADAF434E],
     [0x5375F6FB6AA989B0, 0xC2C6B96032FAF11E, 0x63684DD3F055A1B2, 0xD908398B988EC2B2, 0x913F10903E0BD326],
     [0x33FC34664D479817, 0x2B715C1A078FDE58, 0x140B7C9251369779, 0x857343A7AABDEB5E, 0x92136E0EFB7B70E5]],
     [])"
proof -
  have "sponge False [] (replicate 5 (replicate 5 0))
          = main_loop False [] (replicate 200 0) 0 (replicate 5 (replicate 5 0)) []"
    by (simp add: sponge_def fread_def RATE_BYTES_def CAPACITY_BYTES_def)
  also have "\<dots> =
    ([[0x66D71EBFF8C6FFA7, 0x62D661A05647C151, 0xFA493BE44DFF80F5, 0x4A43F8804B0AD882, 0xE2F36B34B7BE6652],
     [0xFF875921CACC9566, 0x80D97B5776B3BA89, 0x28DEBD55FC6A313B, 0x03AC3D19F1E48ECC, 0x78193AECC1E434E9],
     [0xC287A923AFE81E79, 0x21684AE301601F33, 0x282E7E469E09E75F, 0xD17D1ED2C282B6B8, 0xF050E0D2ADAF434E],
     [0x5375F6FB6AA989B0, 0xC2C6B96032FAF11E, 0x63684DD3F055A1B2, 0xD908398B988EC2B2, 0x913F10903E0BD326],
     [0x33FC34664D479817, 0x2B715C1A078FDE58, 0x140B7C9251369779, 0x857343A7AABDEB5E, 0x92136E0EFB7B70E5]],
     [])"
    by (subst main_loop.simps) (simp add: RATE_BYTES_def Let_def absorb_empty keccak_empty)
  finally show ?thesis .
qed

text \<open>
  The state after the empty file holds the SHA3-256 digest of the empty message in its
  first four lanes, and the verbose block of \<open>main\<close> headed \<open>Hash val is\<close> prints it.
\<close>

lemma digest_hex_empty:
  "digest_hex (fst (sponge False [] (replicate 5 (replicate 5 0))))
     = ''a7ffc6f8bf1ed76651c14756a061d662f580ff4de43b49fa82d80a4b80f8434a''"
  by (simp add: sponge_empty digest_hex_def digest_bytes_def hex_of_byte_def zero_pad_def
      lane_byte_def upt_rec hex_digits.simps)

lemma print_hash_val_empty:
  "print_hash_val (fst (sponge False [] (replicate 5 (replicate 5 0))))
     = ''A7 FF C6 F8 BF 1E D7 66 51 C1 47 56 A0 61 D6 62 '' @ [newline]
       @ ''F5 80 FF 4D E4 3B 49 FA 82 D8 0A 4B 80 F8 43 4A '' @ [newline]"
  by (simp add: sponge_empty print_hash_val_def printf_02X_def zero_pad_def
      lane_byte_def upt_rec hex_digits.simps)

lemma print_result_empty:
  "print_result (fst (sponge False [] (replicate 5 (replicate 5 0))))
     = ''0x66d71ebff8c6ffa762d661a05647c151fa493be44dff80f5e2f36b34b7be6652'' @ [newline]"
  by (simp add: sponge_empty print_result_def printf_lx_def hex_digits.simps)

subsection \<open>The file holding the single byte 0x0E\<close>

lemma byte_0E_round_0:
  "keccak_f_round 0
    ([[0x000000000000060E, 0x0000000000000000, 0x0000000000000000, 0x0000000000000000, 0x0000000000000000],
     [0x0000000000000000, 0x0000000000000000, 0x0000000000000000, 0x0000000000000000, 0x0000000000000000],
     [0x0000000000000000, 0x0000000000000000, 0x0000000000000000, 0x0000000000000000, 0x0000000000000000],
     [0x0000000000000000, 0x8000000000000000, 0x0000000000000000, 0x0000000000000000, 0x0000000000000000],
     [0x0000000000000000, 0x0000000000000000, 0x0000000000000000, 0x0000000000000000, 0x0000000000000000]],
     [0x0000000000000000, 0x0000000000000000, 0x0000000000000000, 0x0000000000000000, 0x0000000000000000]) =
    ([[0x000004000000060E, 0x0060E00000000000, 0x0000040003070000, 0x000000000000060F, 0x0060E00003070000],
     [0x0000000000000008, 0x00C1D000C1C00000, 0x1000000000000008, 0x00C1D00000000000, 0x10000000C1C00000],
     [0x0000000000000C1C, 0x00000000000C1C20, 0x0000000000000000, 0x00000000000C101C, 0x0000000000040020],
     [0x00000060E0183800, 0x0000001000004000, 0x0000000000183800, 0x00000060E0004000, 0x0000001000000000],
     [0x20060E0000000000, 0x0000000000000000, 0x00060E0000001838, 0x2000020000000000, 0x0000000000001838]],
     [0x2000000000000000, 0x0000000000000000, 0x00060E0000000000, 0x0000020000000000, 0x0000000000001838])"
  by (simp add: keccak_f_round_def theta_closed rho_pi_closed chi_closed iota_closed
      round_constants_def ROTL64_def Let_def
      del: theta.simps rho_pi.simps chi.simps iota.simps)

lemma byte_0E_round_1:
  "keccak_f_round 1
    ([[0x000004000000060E, 0x0060E00000000000, 0x0000040003070000, 0x000000000000060F, 0x0060E00003070000],
     [0x0000000000000008, 0x00C1D000C1C00000, 0x1000000000000008, 0x00C1D00000000000, 0x10000000C1C00000],
     [0x0000000000000C1C, 0x00000000000C1C20, 0x0000000000000000, 0x00000000000C101C, 0x0000000000040020],
     [0x00000060E0183800, 0x0000001000004000, 0x0000000000183800, 0x00000060E0004000, 0x0000001000000000],
     [0x20060E0000000000, 0x0000000000000000, 0x00060E0000001838, 0x2000020000000000, 0x0000000000001838]],
     [0x2000000000000000, 0x0000000000000000, 0x00060E0000000000, 0x0000020000000000, 0x0000000000001838]) =
    ([[0x91A29630415BAED4, 0x2F0B612EBCE6128F, 0x96003A0C1E27480C, 0x482E571A415E3EBD, 0x17AD6803B623D81B],
     [0x99699168FB841E82, 0x2C555FC263751018, 0x813492D02AEDE323, 0xD606402190CA7C64, 0xAA329DD920499D5B],
     [0x03DDF6C1C40D68F4, 0xC467A560712E23F4, 0x730C2E4EB9214F06, 0xCDD649A1703E0704, 0x70E5056EB050C792],
     [0x21585B0992940135, 0x57BA0567562A0385, 0x2869C490A83DF100, 0x436198F77E0240B4, 0x14B2C3C821AE9B10],
     [0x8C49A4842694EC11, 0x8338B30F11C3EFCA, 0x1C114A31FE7A1838, 0x1770341605249743, 0x00387A8A88DAC960]],
     [0x9048A43440B4FC01, 0x0018030D10C34C88, 0x1C1903B066E35090, 0x8730B0224500A342, 0x002879839899C9E8])"
  by (simp add: keccak_f_round_def theta_closed rho_pi_closed chi_closed iota_closed
      round_constants_def ROTL64_def Let_def
      del: theta.simps rho_pi.simps chi.simps iota.simps)

lemma byte_0E_round_2:
  "keccak_f_round 2
    ([[0x91A29630415BAED4, 0x2F0B612EBCE6128F, 0x96003A0C1E27480C, 0x482E571A415E3EBD, 0x17AD6803B623D81B],
     [0x99699168FB841E82, 0x2C555FC263751018, 0x813492D02AEDE323, 0xD606402190CA7C64, 0xAA329DD920499D5B],
     [0x03DDF6C1C40D68F4, 0xC467A560712E23F4, 0x730C2E4EB9214F06, 0xCDD649A1703E0704, 0x70E5056EB050C792],
     [0x21585B0992940135, 0x57BA0567562A0385, 0x2869C490A83DF100, 0x436198F77E0240B4, 0x14B2C3C821AE9B10],
     [0x8C49A4842694EC11, 0x8338B30F11C3EFCA, 0x1C114A31FE7A1838, 0x1770341605249743, 0x00387A8A88DAC960]],
     [0x9048A43440B4FC01, 0x0018030D10C34C88, 0x1C1903B066E35090, 0x8730B0224500A342, 0x002879839899C9E8]) =
    ([[0xEB24B55D5F9C8AA4, 0xF3FFC6A9BC1F01EF, 0x6533E2FB473B2DFD, 0x6F37E27E8CB83C28, 0xF5ED735CAC12C337],
     [0x8A0FF8CE12A9EC8C, 0x3DB6FE1567EC9837, 0xEAD5B7B49B556A7F, 0x4DC4632D29DA85B0, 0x30BEB6741100EF1B],
     [0xF870F1B982841356, 0x541370F5AE2084BC, 0x77AA7AD6B9D12584, 0x523D885F8632071F, 0xDEEBED8AB3AF4F9F],
     [0x0F00513962E32633, 0x6234F58E72F42D7E, 0x93D84CB550F14632, 0x0EC9F3382E1E7A06, 0x77C1D629D4D80473],
     [0x869C3457D0CFAA4A, 0x5A9A564FC3289C68, 0xAC777ADD83509E5F, 0xC69697B9FC0AC5DB, 0x0EFC76D99E07541A]],
     [0x22993CC7D09AA85D, 0x181AD36DFFAAFDE8, 0xBC1F5A9D82759E7F, 0xE6979FBFBC926D9E, 0x16FEB5F1B12701BA])"
  by (simp add: keccak_f_round_def theta_closed rho_pi_closed chi_closed iota_closed
      round_constants_def ROTL64_def Let_def
      del: theta.simps rho_pi.simps chi.simps iota.simps)

lemma byte_0E_round_3:
  "keccak_f_round 3
    ([[0xEB24B55D5F9C8AA4, 0xF3FFC6A9BC1F01EF, 0x6533E2FB473B2DFD, 0x6F37E27E8CB83C28, 0xF5ED735CAC12C337],
     [0x8A0FF8CE12A9EC8C, 0x3DB6FE1567EC9837, 0xEAD5B7B49B556A7F, 0x4DC4632D29DA85B0, 0x30BEB6741100EF1B],
     [0xF870F1B982841356, 0x541370F5AE2084BC, 0x77AA7AD6B9D12584, 0x523D885F8632071F, 0xDEEBED8AB3AF4F9F],
     [0x0F00513962E32633, 0x6234F58E72F42D7E, 0x93D84CB550F14632, 0x0EC9F3382E1E7A06, 0x77C1D629D4D80473],
     [0x869C3457D0CFAA4A, 0x5A9A564FC3289C68, 0xAC777ADD83509E5F, 0xC69697B9FC0AC5DB, 0x0EFC76D99E07541A]],
     [0x22993CC7D09AA85D, 0x181AD36DFFAAFDE8, 0xBC1F5A9D82759E7F, 0xE6979FBFBC926D9E, 0x16FEB5F1B12701BA]) =
    ([[0x7848EF1E91F16901, 0x88FE7ABF686AA761, 0x160F3829E2800D3A, 0x09AAD2946901C43C, 0xAB61353F49D9A39C],
     [0xD3C26E1D45DCBFFA, 0x93013FD544DEB626, 0xF305579B23D1015F, 0x2417D9B081A034CA, 0x0BE5B8A95498E617],
     [0xCCEC480DDB7F997E, 0x8AE9E5A553E72AE2, 0x352183B480A12B03, 0x8EA524CAFDDE3FD0, 0xAC51F3292156A1C1],
     [0xCF1269471B621E42, 0xD95A4A3BA26078DE, 0x4AAD0E7A88A5E334, 0xF7203A3A675FAD65, 0x248C6CA628DAB085],
     [0x65E11518DAFF671E, 0x23278E653C0F302D, 0xEA3A8600F8B9457E, 0x950B1C48C853D551, 0x046871866E20C6C3]],
     [0xADB9749A186F20CE, 0x37A796353C0B802C, 0xE85E65A3FA9947DC, 0x3C9A1850D81CF55D, 0x166EF3A34A2046E3])"
  by (simp add: keccak_f_round_def theta_closed rho_pi_closed chi_closed iota_closed
      round_constants_def ROTL64_def Let_def
      del: theta.simps rho_pi.simps chi.simps iota.simps)

lemma byte_0E_round_4:
  "keccak_f_round 4
    ([[0x7848EF1E91F16901, 0x88FE7ABF686AA761, 0x160F3829E2800D3A, 0x09AAD2946901C43C, 0xAB61353F49D9A39C],
     [0xD3C26E1D45DCBFFA, 0x93013FD544DEB626, 0xF305579B23D1015F, 0x2417D9B081A034CA, 0x0BE5B8A95498E617],
     [0xCCEC480DDB7F997E, 0x8AE9E5A553E72AE2, 0x352183B480A12B03, 0x8EA524CAFDDE3FD0, 0xAC51F3292156A1C1],
     [0xCF1269471B621E42, 0xD95A4A3BA26078DE, 0x4AAD0E7A88A5E334, 0xF7203A3A675FAD65, 0x248C6CA628DAB085],
     [0x65E11518DAFF671E, 0x23278E653C0F302D, 0xEA3A8600F8B9457E, 0x950B1C48C853D551, 0x046871866E20C6C3]],
     [0xADB9749A186F20CE, 0x37A796353C0B802C, 0xE85E65A3FA9947DC, 0x3C9A1850D81CF55D, 0x166EF3A34A2046E3]) =
    ([[0xD33EC1A30AE4BD09, 0xA62E12FECC3CD1CC, 0xD119949322A0E0A7, 0xAD156881225FF7F2, 0x0CAE682F831B5580],
     [0x6ACB66989605273D, 0xF0E7DD672BC51ED3, 0x903B158A165B64F0, 0x831AFEB664E145F2, 0x3142EF7644CC53C1],
     [0x5855DD3DC3B1D3C8, 0x060404E7B4A50B76, 0x7AE3D39581DCAF0F, 0x94299F0AB76B27BF, 0x7C9989684EFC741C],
     [0x0111A190ABAA4E30, 0xF815B9A6A95E1B5F, 0x5374E2FBC475AAB8, 0x3EA92CFF9AA05B50, 0xB131C19D1A58647F],
     [0x7F7903A2591EC411, 0x5D4620BDB2253F8C, 0x4C97BB6B20A80BB3, 0xAE15D4ABF2153345, 0xBF2DAB2F64441978]],
     [0x7FC093E05DD6C412, 0xFF0664BD7922CBC8, 0x5DBDB07B24C80B03, 0xEED5C46BEB87F747, 0x3F2BCF32446412B0])"
  by (simp add: keccak_f_round_def theta_closed rho_pi_closed chi_closed iota_closed
      round_constants_def ROTL64_def Let_def
      del: theta.simps rho_pi.simps chi.simps iota.simps)

lemma byte_0E_round_5:
  "keccak_f_round 5
    ([[0xD33EC1A30AE4BD09, 0xA62E12FECC3CD1CC, 0xD119949322A0E0A7, 0xAD156881225FF7F2, 0x0CAE682F831B5580],
     [0x6ACB66989605273D, 0xF0E7DD672BC51ED3, 0x903B158A165B64F0, 0x831AFEB664E145F2, 0x3142EF7644CC53C1],
     [0x5855DD3DC3B1D3C8, 0x060404E7B4A50B76, 0x7AE3D39581DCAF0F, 0x94299F0AB76B27BF, 0x7C9989684EFC741C],
     [0x0111A190ABAA4E30, 0xF815B9A6A95E1B5F, 0x5374E2FBC475AAB8, 0x3EA92CFF9AA05B50, 0xB131C19D1A58647F],
     [0x7F7903A2591EC411, 0x5D4620BDB2253F8C, 0x4C97BB6B20A80BB3, 0xAE15D4ABF2153345, 0xBF2DAB2F64441978]],
     [0x7FC093E05DD6C412, 0xFF0664BD7922CBC8, 0x5DBDB07B24C80B03, 0xEED5C46BEB87F747, 0x3F2BCF32446412B0]) =
    ([[0xE64E0D6AAF957EA7, 0x449A227F05D63279, 0xF7AC47F04B137F59, 0x99E4A6D9D3F49A1B, 0xB21B6BAFC8F8EAD0],
     [0xA9DC3F947336F18C, 0xFEEC620095B7545A, 0xE403EBADA7406D3D, 0xF9DCB3F37EC34C49, 0xFBA7C1392749C619],
     [0xE1550981145A3D5C, 0x3CA94F836E5D8B88, 0x273D9F66B8BCB2A9, 0xDAC19DBD751E6FE8, 0x0B84BF8203FEAE33],
     [0x5A2CBFBE9ADD3B09, 0x9FDAC02DE16125B6, 0x213B8EFCF334B746, 0xF12FCF21D02B51A7, 0xA7C6E516D16FC5B1],
     [0x7C6F8BA9DF11BAD4, 0x0F9CCC54566E3971, 0x20AC8630B9743400, 0xF1443E438EC3AF99, 0xA9BBCED0F03FA3F6]],
     [0x5C6C89095611BED2, 0x8A9CF51E56EDBAE8, 0x2A8706B4C9643446, 0xA5003F4A88C3B399, 0x2B2BBAC6F0D3A3DE])"
  by (simp add: keccak_f_round_def theta_closed rho_pi_closed chi_closed iota_closed
      round_constants_def ROTL64_def Let_def
      del: theta.simps rho_pi.simps chi.simps iota.simps)

lemma byte_0E_round_6:
  "keccak_f_round 6
    ([[0xE64E0D6AAF957EA7, 0x449A227F05D63279, 0xF7AC47F04B137F59, 0x99E4A6D9D3F49A1B, 0xB21B6BAFC8F8EAD0],
     [0xA9DC3F947336F18C, 0xFEEC620095B7545A, 0xE403EBADA7406D3D, 0xF9DCB3F37EC34C49, 0xFBA7C1392749C619],
     [0xE1550981145A3D5C, 0x3CA94F836E5D8B88, 0x273D9F66B8BCB2A9, 0xDAC19DBD751E6FE8, 0x0B84BF8203FEAE33],
     [0x5A2CBFBE9ADD3B09, 0x9FDAC02DE16125B6, 0x213B8EFCF334B746, 0xF12FCF21D02B51A7, 0xA7C6E516D16FC5B1],
     [0x7C6F8BA9DF11BAD4, 0x0F9CCC54566E3971, 0x20AC8630B9743400, 0xF1443E438EC3AF99, 0xA9BBCED0F03FA3F6]],
     [0x5C6C89095611BED2, 0x8A9CF51E56EDBAE8, 0x2A8706B4C9643446, 0xA5003F4A88C3B399, 0x2B2BBAC6F0D3A3DE]) =
    ([[0x2B59369272BDFDE3, 0xC206F495492BF24C, 0x2E736A2403780768, 0xAB6AB3E5BAEFAC53, 0x2A7B5A6121C9C295],
     [0xB57647CEB256660C, 0x2BFBF30EEA8121FB, 0xA153A28B11B95880, 0x5F350EAEB7537C21, 0xE8EB96EB9339A89E],
     [0x5C49B8F169D0841D, 0xEF86D2BD3845B629, 0x5EA71CA800EE89D5, 0x58AA861CCDDFE985, 0x6A4041AE66C02642],
     [0x42B29F3059809B5C, 0xE7EE361EAEB144C1, 0xDCC89740CAF6817C, 0x2DEB4FC2EC55A963, 0xEC11ABF4933A37C7],
     [0x87C13DE78CE8D243, 0x1C12A1DC60FDA553, 0x1EC77259077D617B, 0x4B7EF4D2B4E44DC3, 0xEC60D353C8001EA7]],
     [0x25046DE783E8804F, 0x5C2A29FAD0FD29D3, 0xAAC771500F6C534F, 0x4A7AD876B70CCD8B, 0xB44AD34B98153737])"
  by (simp add: keccak_f_round_def theta_closed rho_pi_closed chi_closed iota_closed
      round_constants_def ROTL64_def Let_def
      del: theta.simps rho_pi.simps chi.simps iota.simps)

lemma byte_0E_round_7:
  "keccak_f_round 7
    ([[0x2B59369272BDFDE3, 0xC206F495492BF24C, 0x2E736A2403780768, 0xAB6AB3E5BAEFAC53, 0x2A7B5A6121C9C295],
     [0xB57647CEB256660C, 0x2BFBF30EEA8121FB, 0xA153A28B11B95880, 0x5F350EAEB7537C21, 0xE8EB96EB9339A89E],
     [0x5C49B8F169D0841D, 0xEF86D2BD3845B629, 0x5EA71CA800EE89D5, 0x58AA861CCDDFE985, 0x6A4041AE66C02642],
     [0x42B29F3059809B5C, 0xE7EE361EAEB144C1, 0xDCC89740CAF6817C, 0x2DEB4FC2EC55A963, 0xEC11ABF4933A37C7],
     [0x87C13DE78CE8D243, 0x1C12A1DC60FDA553, 0x1EC77259077D617B, 0x4B7EF4D2B4E44DC3, 0xEC60D353C8001EA7]],
     [0x25046DE783E8804F, 0x5C2A29FAD0FD29D3, 0xAAC771500F6C534F, 0x4A7AD876B70CCD8B, 0xB44AD34B98153737]) =
    ([[0xBCFFD7D956A219FC, 0x1BF22CBF4EAD7689, 0x45A3B3AA1074112F, 0xE3E3F86AE53DF4C3, 0x20780A3BB28E8802],
     [0xBD85B401C25717FF, 0x05462CF08232EE89, 0x7F0663D064EB0B22, 0x8ECEC9FCC57B39B1, 0x0EFA26DA4D4FA3FB],
     [0xCE073D878445D3A3, 0x549D39CD699A80F2, 0x2E1A7E2F69BCD329, 0x9BF81ED24E67CA2A, 0x37CAA28E965759E9],
     [0x9C42A5B1D5510B40, 0x0120A7DE685E6098, 0x8F67CBEBFA22C70E, 0x7A919FE85BEF5281, 0xCBB9A760E3F724A8],
     [0x8BEC4A86DDDF0071, 0xA5CA674A616F01B8, 0x3A39459B810B8783, 0x9A6D90336B9B76A9, 0xD45C17068DBA0EA8]],
     [0xD1CD4A13D9DF8E72, 0x240EFF6A5BBB71C0, 0x5A2B67D7050B8E83, 0x9BECD8223BDEF6FB, 0xF05EA26E8F9A7F28])"
  by (simp add: keccak_f_round_def theta_closed rho_pi_closed chi_closed iota_closed
      round_constants_def ROTL64_def Let_def
      del: theta.simps rho_pi.simps chi.simps iota.simps)

lemma byte_0E_round_8:
  "keccak_f_round 8
    ([[0xBCFFD7D956A219FC, 0x1BF22CBF4EAD7689, 0x45A3B3AA1074112F, 0xE3E3F86AE53DF4C3, 0x20780A3BB28E8802],
     [0xBD85B401C25717FF, 0x05462CF08232EE89, 0x7F0663D064EB0B22, 0x8ECEC9FCC57B39B1, 0x0EFA26DA4D4FA3FB],
     [0xCE073D878445D3A3, 0x549D39CD699A80F2, 0x2E1A7E2F69BCD329, 0x9BF81ED24E67CA2A, 0x37CAA28E965759E9],
     [0x9C42A5B1D5510B40, 0x0120A7DE685E6098, 0x8F67CBEBFA22C70E, 0x7A919FE85BEF5281, 0xCBB9A760E3F724A8],
     [0x8BEC4A86DDDF0071, 0xA5CA674A616F01B8, 0x3A39459B810B8783, 0x9A6D90336B9B76A9, 0xD45C17068DBA0EA8]],
     [0xD1CD4A13D9DF8E72, 0x240EFF6A5BBB71C0, 0x5A2B67D7050B8E83, 0x9BECD8223BDEF6FB, 0xF05EA26E8F9A7F28]) =
    ([[0x62955DFD0B31A84B, 0xFA32B9EC5CD7E171, 0x9370EFE4DE14236D, 0x19634974681BE751, 0x0572D8E4D4F2D9D4],
     [0x78E595D8A1C4CAF5, 0x5DD26432FAC68048, 0xA27B81AE8F93E0A0, 0x74635306AE1A9FCF, 0x3E073D942838A214],
     [0x8BCEBAD9772FE417, 0x5056F61584CD7D47, 0xC245B7D5667F8697, 0x36A09D84CFA6DFE9, 0x7EBA4DB6A7514332],
     [0x87C50A62093FF365, 0xD68B85AE52FDA698, 0x3335BC76C514C23A, 0xBF20D56CF423B6FB, 0x783C124866C22757],
     [0x422647E0821A8BFB, 0xDC11184C35556881, 0x05C5CC6827707014, 0xC5C168CED0FBA112, 0xE77F61A8B0D771E8]],
     [0x61CC82E0803A8B87, 0x1C113ACAE5D66380, 0x3FEBDD48227060FC, 0xC541EA8ED0D32B15, 0xFB6E59A2D51311E8])"
  by (simp add: keccak_f_round_def theta_closed rho_pi_closed chi_closed iota_closed
      round_constants_def ROTL64_def Let_def
      del: theta.simps rho_pi.simps chi.simps iota.simps)

lemma byte_0E_round_9:
  "keccak_f_round 9
    ([[0x62955DFD0B31A84B, 0xFA32B9EC5CD7E171, 0x9370EFE4DE14236D, 0x19634974681BE751, 0x0572D8E4D4F2D9D4],
     [0x78E595D8A1C4CAF5, 0x5DD26432FAC68048, 0xA27B81AE8F93E0A0, 0x74635306AE1A9FCF, 0x3E073D942838A214],
     [0x8BCEBAD9772FE417, 0x5056F61584CD7D47, 0xC245B7D5667F8697, 0x36A09D84CFA6DFE9, 0x7EBA4DB6A7514332],
     [0x87C50A62093FF365, 0xD68B85AE52FDA698, 0x3335BC76C514C23A, 0xBF20D56CF423B6FB, 0x783C124866C22757],
     [0x422647E0821A8BFB, 0xDC11184C35556881, 0x05C5CC6827707014, 0xC5C168CED0FBA112, 0xE77F61A8B0D771E8]],
     [0x61CC82E0803A8B87, 0x1C113ACAE5D66380, 0x3FEBDD48227060FC, 0xC541EA8ED0D32B15, 0xFB6E59A2D51311E8]) =
    ([[0xE2E6E949577C61CE, 0x5D087C3F8095A040, 0xA8EE6BEB16ECA8CF, 0x1607B6FBA28990B1, 0x00490C33EFC68B91],
     [0xC279D8AAE69C4543, 0xB5CA0B9A93717E85, 0xD9DD4DA380447CA5, 0x7EE85D37BDBA70E5, 0xE6CF62D92F5C42ED],
     [0xCA27AF2B4AABE25E, 0x32046BE244775E36, 0x900258F90908070A, 0xCF734AE40069C7E1, 0xF702553101F1974E],
     [0xF2EA342908D008D7, 0x4F224B7E1302AA8A, 0x9AEDA3D42FB85FBF, 0xBD797DC79CD0C22D, 0xF5A56523811C5982],
     [0x63B20A00F0E3660C, 0x00726C22644A6D56, 0xE403F1FAA2814E73, 0x3341C4567158281D, 0x1CC5B0E1275DE82E]],
     [0x8B378B597067E40D, 0x1002622665304D5A, 0xE887E17BA0848F13, 0xB073CF4E217A2C1C, 0x0CC5D0C7224DE17C])"
  by (simp add: keccak_f_round_def theta_closed rho_pi_closed chi_closed iota_closed
      round_constants_def ROTL64_def Let_def
      del: theta.simps rho_pi.simps chi.simps iota.simps)

lemma byte_0E_round_10:
  "keccak_f_round 10
    ([[0xE2E6E949577C61CE, 0x5D087C3F8095A040, 0xA8EE6BEB16ECA8CF, 0x1607B6FBA28990B1, 0x00490C33EFC68B91],
     [0xC279D8AAE69C4543, 0xB5CA0B9A93717E85, 0xD9DD4DA380447CA5, 0x7EE85D37BDBA70E5, 0xE6CF62D92F5C42ED],
     [0xCA27AF2B4AABE25E, 0x32046BE244775E36, 0x900258F90908070A, 0xCF734AE40069C7E1, 0xF702553101F1974E],
     [0xF2EA342908D008D7, 0x4F224B7E1302AA8A, 0x9AEDA3D42FB85FBF, 0xBD797DC79CD0C22D, 0xF5A56523811C5982],
     [0x63B20A00F0E3660C, 0x00726C22644A6D56, 0xE403F1FAA2814E73, 0x3341C4567158281D, 0x1CC5B0E1275DE82E]],
     [0x8B378B597067E40D, 0x1002622665304D5A, 0xE887E17BA0848F13, 0xB073CF4E217A2C1C, 0x0CC5D0C7224DE17C]) =
    ([[0x23EE41C051700426, 0xAC3D4E105A2E3AC3, 0xA4FFCEF2EAF01E6B, 0xAC4042BB971A6DF6, 0xBE77BAC6936AABF8],
     [0x22B450D007BD003D, 0x8AAFF6B161C3A8A2, 0x0B7926332917CCBA, 0x135F21EF9554228C, 0x5C52185FBCFD78C8],
     [0x218502E5ECFFD152, 0x80D5E290502C340C, 0x9B3A4A3CE1700BB4, 0xF23C5A747F4D0D2B, 0x88EFA9EC1D36E1EF],
     [0x2A979D38C638F72B, 0x949448421B142A5C, 0x6249F79C4BED0DFD, 0x945C5DE3459D4C93, 0x8C5D1735E2A99C61],
     [0xDA8918E0C6629972, 0xAADA7F148968B332, 0xE9253E21BB83257B, 0x13DE2442B1B8917E, 0x30B230E301152219]],
     [0x9B8C1860F4E49D3A, 0xBA087F56CD30BB36, 0xE9056D94B386257A, 0x98D22C4245580C5C, 0x10B257F50805001D])"
  by (simp add: keccak_f_round_def theta_closed rho_pi_closed chi_closed iota_closed
      round_constants_def ROTL64_def Let_def
      del: theta.simps rho_pi.simps chi.simps iota.simps)

lemma byte_0E_round_11:
  "keccak_f_round 11
    ([[0x23EE41C051700426, 0xAC3D4E105A2E3AC3, 0xA4FFCEF2EAF01E6B, 0xAC4042BB971A6DF6, 0xBE77BAC6936AABF8],
     [0x22B450D007BD003D, 0x8AAFF6B161C3A8A2, 0x0B7926332917CCBA, 0x135F21EF9554228C, 0x5C52185FBCFD78C8],
     [0x218502E5ECFFD152, 0x80D5E290502C340C, 0x9B3A4A3CE1700BB4, 0xF23C5A747F4D0D2B, 0x88EFA9EC1D36E1EF],
     [0x2A979D38C638F72B, 0x949448421B142A5C, 0x6249F79C4BED0DFD, 0x945C5DE3459D4C93, 0x8C5D1735E2A99C61],
     [0xDA8918E0C6629972, 0xAADA7F148968B332, 0xE9253E21BB83257B, 0x13DE2442B1B8917E, 0x30B230E301152219]],
     [0x9B8C1860F4E49D3A, 0xBA087F56CD30BB36, 0xE9056D94B386257A, 0x98D22C4245580C5C, 0x10B257F50805001D]) =
    ([[0xC581930FF705F69C, 0x7387D918E9A1EF6C, 0x035620BBBD33C674, 0x3C572B70C6E618CF, 0x1D083F683A811785],
     [0xFBFE2C13CB7DAF9B, 0x8A145399944FB706, 0x2D1B3C4E7EC33BB6, 0x2C21676BA0EC439A, 0x3C8DCAE0BE0C34A4],
     [0x64B517738D6A88F8, 0x95D275E4E9C78026, 0x661F0FCBAECB4EC8, 0x7BF3E2775E57F8E7, 0x323110959FD9C2FA],
     [0x61743A31BB2BAA8C, 0x50DB29DC4A7AF8C3, 0x0088F52E9CB324C6, 0x2C88FA0FACE93301, 0xCE8B45DA05D13B3B],
     [0x0AE911D582C01794, 0x8E0B6401F466EBED, 0x6060D113FDEB9D64, 0xD60A179CC0D6A9C8, 0x06EC9CEA2FFD67F5]],
     [0x6A6D08A580400784, 0x10006289F472CB65, 0x60843971E6E29B70, 0xBE0B179940D6A9C8, 0x16ECFEE25BCFAF94])"
  by (simp add: keccak_f_round_def theta_closed rho_pi_closed chi_closed iota_closed
      round_constants_def ROTL64_def Let_def
      del: theta.simps rho_pi.simps chi.simps iota.simps)

lemma byte_0E_round_12:
  "keccak_f_round 12
    ([[0xC581930FF705F69C, 0x7387D918E9A1EF6C, 0x035620BBBD33C674, 0x3C572B70C6E618CF, 0x1D083F683A811785],
     [0xFBFE2C13CB7DAF9B, 0x8A145399944FB706, 0x2D1B3C4E7EC33BB6, 0x2C21676BA0EC439A, 0x3C8DCAE0BE0C34A4],
     [0x64B517738D6A88F8, 0x95D275E4E9C78026, 0x661F0FCBAECB4EC8, 0x7BF3E2775E57F8E7, 0x323110959FD9C2FA],
     [0x61743A31BB2BAA8C, 0x50DB29DC4A7AF8C3, 0x0088F52E9CB324C6, 0x2C88FA0FACE93301, 0xCE8B45DA05D13B3B],
     [0x0AE911D582C01794, 0x8E0B6401F466EBED, 0x6060D113FDEB9D64, 0xD60A179CC0D6A9C8, 0x06EC9CEA2FFD67F5]],
     [0x6A6D08A580400784, 0x10006289F472CB65, 0x60843971E6E29B70, 0xBE0B179940D6A9C8, 0x16ECFEE25BCFAF94]) =
    ([[0xA8612B46120274E7, 0x24AB1EEB0BE352D1, 0xC3BA7F2700546420, 0xE3A90F28E250B29A, 0x328A8E3A08313D52],
     [0x88A706B6C8F5BF44, 0xC08B3FC5591ED050, 0xDC3B09F7E4AC5DD0, 0x30AE841B589E8908, 0x5E1745C3AEEB0486],
     [0x3B29E02A32747AA6, 0x4202727F0CB288CA, 0x5C43061C79C98F1A, 0x2649526243F6A3AF, 0x62219D59FD92502C],
     [0x03F92EFA247500C9, 0xC6FC4EB45CEEDCE2, 0xCD28B5BF62E04307, 0xE08486804CF8CB0F, 0xAF49565C952C10FB],
     [0x44F2641F8B789F1C, 0xDDDB068B1923FE09, 0xAC3121E05D8A3EAE, 0x3552F8F146564F2C, 0x30ABBCB18161696A]],
     [0x64F2457F4FF09FF8, 0x8CD99E9419673F19, 0x249127E0CCAA3EED, 0x7102B9BF08C6D9BC, 0xB8A226319166496B])"
  by (simp add: keccak_f_round_def theta_closed rho_pi_closed chi_closed iota_closed
      round_constants_def ROTL64_def Let_def
      del: theta.simps rho_pi.simps chi.simps iota.simps)

lemma byte_0E_round_13:
  "keccak_f_round 13
    ([[0xA8612B46120274E7, 0x24AB1EEB0BE352D1, 0xC3BA7F2700546420, 0xE3A90F28E250B29A, 0x328A8E3A08313D52],
     [0x88A706B6C8F5BF44, 0xC08B3FC5591ED050, 0xDC3B09F7E4AC5DD0, 0x30AE841B589E8908, 0x5E1745C3AEEB0486],
     [0x3B29E02A32747AA6, 0x4202727F0CB288CA, 0x5C43061C79C98F1A, 0x2649526243F6A3AF, 0x62219D59FD92502C],
     [0x03F92EFA247500C9, 0xC6FC4EB45CEEDCE2, 0xCD28B5BF62E04307, 0xE08486804CF8CB0F, 0xAF49565C952C10FB],
     [0x44F2641F8B789F1C, 0xDDDB068B1923FE09, 0xAC3121E05D8A3EAE, 0x3552F8F146564F2C, 0x30ABBCB18161696A]],
     [0x64F2457F4FF09FF8, 0x8CD99E9419673F19, 0x249127E0CCAA3EED, 0x7102B9BF08C6D9BC, 0xB8A226319166496B]) =
    ([[0xCB49B1D552833D4D, 0x37826DB98679D5E2, 0xB8ADDF597298BE17, 0x132A15A133FE09C2, 0xB1FBB3724F29EA5E],
     [0x1FC2445AAE1D7122, 0xA5C9AC31F39877E6, 0x81EB71D24789D872, 0xF9768AF5EA0DF3CA, 0x8A1D8C9DA5A4818A],
     [0xAFD8E9766FF9D99A, 0x0BD7366F8082532A, 0x74FF839626CEE515, 0x593F22E9A7740432, 0xBA3CDBE778D0BC9B],
     [0x6315C3DF659CE83F, 0x3F47A5C73E354AF9, 0xC8C4AC7EFCF0764D, 0x73C884A42CC94095, 0xB07F1064E25A05E4],
     [0x8FE303F38F369D6F, 0x2C9B668C4A72B389, 0x9E28E971983B0A87, 0xE5414B534C5E52B8, 0x5239464068697BEF]],
     [0x0FE38A823F3E9D2F, 0x4C18640C093267B1, 0x8C08C97DB81A03C0, 0xE883C3D15B48D6B8, 0x1221224C6869197F])"
  by (simp add: keccak_f_round_def theta_closed rho_pi_closed chi_closed iota_closed
      round_constants_def ROTL64_def Let_def
      del: theta.simps rho_pi.simps chi.simps iota.simps)

lemma byte_0E_round_14:
  "keccak_f_round 14
    ([[0xCB49B1D552833D4D, 0x37826DB98679D5E2, 0xB8ADDF597298BE17, 0x132A15A133FE09C2, 0xB1FBB3724F29EA5E],
     [0x1FC2445AAE1D7122, 0xA5C9AC31F39877E6, 0x81EB71D24789D872, 0xF9768AF5EA0DF3CA, 0x8A1D8C9DA5A4818A],
     [0xAFD8E9766FF9D99A, 0x0BD7366F8082532A, 0x74FF839626CEE515, 0x593F22E9A7740432, 0xBA3CDBE778D0BC9B],
     [0x6315C3DF659CE83F, 0x3F47A5C73E354AF9, 0xC8C4AC7EFCF0764D, 0x73C884A42CC94095, 0xB07F1064E25A05E4],
     [0x8FE303F38F369D6F, 0x2C9B668C4A72B389, 0x9E28E971983B0A87, 0xE5414B534C5E52B8, 0x5239464068697BEF]],
     [0x0FE38A823F3E9D2F, 0x4C18640C093267B1, 0x8C08C97DB81A03C0, 0xE883C3D15B48D6B8, 0x1221224C6869197F]) =
    ([[0x257D6703583474A5, 0xC2C73058CE6C8646, 0x7B8B2CCB5B9576F8, 0x81D82A9DFCF4F401, 0x61EA3134B7A4D465],
     [0x37626A4E2E676184, 0x5F50813ADC6CDFE4, 0x0773143B8E7A095A, 0x3EA56B8F1D76F5BA, 0xAB630799E5AFD11E],
     [0x6D1BC3D02333322A, 0x87F2FEB373221832, 0x67C12B120359E518, 0xD3DB069FF008ACBA, 0x70FA6C6E125BE36F],
     [0xB557667105C8DFC4, 0x5DBD8D14CFE5F2FB, 0xE0F275589132FDFC, 0x2B2732C2D7CEC4A8, 0xC891A4C1912AB7C4],
     [0x5F86214073EF5A59, 0x2C3181634FE7B61A, 0xAF98C20F2AC2A2CA, 0xBCADCE2013941E66, 0x164125F47A4A1144]],
     [0xDE4E43D873E75B99, 0x7C128D435FD6E22F, 0xADC8E3D84E8803CA, 0x74A38C28123154FF, 0x3651A9F7765AB162])"
  by (simp add: keccak_f_round_def theta_closed rho_pi_closed chi_closed iota_closed
      round_constants_def ROTL64_def Let_def
      del: theta.simps rho_pi.simps chi.simps iota.simps)

lemma byte_0E_round_15:
  "keccak_f_round 15
    ([[0x257D6703583474A5, 0xC2C73058CE6C8646, 0x7B8B2CCB5B9576F8, 0x81D82A9DFCF4F401, 0x61EA3134B7A4D465],
     [0x37626A4E2E676184, 0x5F50813ADC6CDFE4, 0x0773143B8E7A095A, 0x3EA56B8F1D76F5BA, 0xAB630799E5AFD11E],
     [0x6D1BC3D02333322A, 0x87F2FEB373221832, 0x67C12B120359E518, 0xD3DB069FF008ACBA, 0x70FA6C6E125BE36F],
     [0xB557667105C8DFC4, 0x5DBD8D14CFE5F2FB, 0xE0F275589132FDFC, 0x2B2732C2D7CEC4A8, 0xC891A4C1912AB7C4],
     [0x5F86214073EF5A59, 0x2C3181634FE7B61A, 0xAF98C20F2AC2A2CA, 0xBCADCE2013941E66, 0x164125F47A4A1144]],
     [0xDE4E43D873E75B99, 0x7C128D435FD6E22F, 0xADC8E3D84E8803CA, 0x74A38C28123154FF, 0x3651A9F7765AB162]) =
    ([[0x96152A69B9A4A6D4, 0x5C66AE22251B467A, 0x485FD596C09A6BDF, 0x27519CA83092C826, 0xCA127E474CF271B9],
     [0x5D6DBB5A11D48338, 0xF2CD6B0F9667BA4B, 0xF755E9BC561BCBE6, 0xA3568D19F87EC45D, 0x24C75AEAE20B7546],
     [0xF07DEC7C6F484D98, 0xA0C0F2B37FB8CD36, 0x6E7655AC3CA70FEE, 0x1E0F77025AC56A18, 0xF76C7AFD500F13FB],
     [0x19AE9F379D4FFC62, 0x517296F84A3A6355, 0xC2D8C62FD0E672B0, 0x3916ABF90E0A7221, 0xA27199D53818B14E],
     [0xB9A6C02C90256385, 0xFE52F8B02B86B841, 0x866CC442AE6046C0, 0xC9A9A464483495DC, 0x435C1E06B3247608]],
     [0xB98EC66C84456705, 0x8F51D8BC6B932858, 0x8268C6D03EE22CC0, 0x712B640C4C7594D9, 0x450D0696D8B67E50])"
  by (simp add: keccak_f_round_def theta_closed rho_pi_closed chi_closed iota_closed
      round_constants_def ROTL64_def Let_def
      del: theta.simps rho_pi.simps chi.simps iota.simps)

lemma byte_0E_round_16:
  "keccak_f_round 16
    ([[0x96152A69B9A4A6D4, 0x5C66AE22251B467A, 0x485FD596C09A6BDF, 0x27519CA83092C826, 0xCA127E474CF271B9],
     [0x5D6DBB5A11D48338, 0xF2CD6B0F9667BA4B, 0xF755E9BC561BCBE6, 0xA3568D19F87EC45D, 0x24C75AEAE20B7546],
     [0xF07DEC7C6F484D98, 0xA0C0F2B37FB8CD36, 0x6E7655AC3CA70FEE, 0x1E0F77025AC56A18, 0xF76C7AFD500F13FB],
     [0x19AE9F379D4FFC62, 0x517296F84A3A6355, 0xC2D8C62FD0E672B0, 0x3916ABF90E0A7221, 0xA27199D53818B14E],
     [0xB9A6C02C90256385, 0xFE52F8B02B86B841, 0x866CC442AE6046C0, 0xC9A9A464483495DC, 0x435C1E06B3247608]],
     [0xB98EC66C84456705, 0x8F51D8BC6B932858, 0x8268C6D03EE22CC0, 0x712B640C4C7594D9, 0x450D0696D8B67E50]) =
    ([[0x2C014895008E123B, 0x2729530C29E24977, 0x8B5650D618F578DF, 0x429127EB30F81EEF, 0x0F4848C58F4C0ABA],
     [0x51DE6F3244334D0C, 0x52DB27BC5392A6A2, 0x99F43352129ADF32, 0x34C36A3DAC766525, 0xD84929788EA2775E],
     [0xDB35D760A8E44052, 0xDC2C9F8C590290C0, 0xFEC14CA361F5D55F, 0x8D40517AAACEF6B3, 0xAC02F4EDCC88BCB2],
     [0x106680D88CB7529E, 0x6C3A5F563735447D, 0x2C31C056AC07A8C1, 0xA6906A58C94F216E, 0x10353D7AFB3F04EF],
     [0x4F02B7D271FB78BC, 0x1EA3D5A8E323A79B, 0x4CB291DDC2BE7D19, 0xEDF28C4508C833EC, 0x8BDD7CE5A8556736]],
     [0x0F1E9787717360BC, 0xBFE3DBAAFA63A5FF, 0x5EBEA155E0ABBD08, 0xE9F00F4759EA3364, 0x3B3C34CD2255E275])"
  by (simp add: keccak_f_round_def theta_closed rho_pi_closed chi_closed iota_closed
      round_constants_def ROTL64_def Let_def
      del: theta.simps rho_pi.simps chi.simps iota.simps)

lemma byte_0E_round_17:
  "keccak_f_round 17
    ([[0x2C014895008E123B, 0x2729530C29E24977, 0x8B5650D618F578DF, 0x429127EB30F81EEF, 0x0F4848C58F4C0ABA],
     [0x51DE6F3244334D0C, 0x52DB27BC5392A6A2, 0x99F43352129ADF32, 0x34C36A3DAC766525, 0xD84929788EA2775E],
     [0xDB35D760A8E44052, 0xDC2C9F8C590290C0, 0xFEC14CA361F5D55F, 0x8D40517AAACEF6B3, 0xAC02F4EDCC88BCB2],
     [0x106680D88CB7529E, 0x6C3A5F563735447D, 0x2C31C056AC07A8C1, 0xA6906A58C94F216E, 0x10353D7AFB3F04EF],
     [0x4F02B7D271FB78BC, 0x1EA3D5A8E323A79B, 0x4CB291DDC2BE7D19, 0xEDF28C4508C833EC, 0x8BDD7CE5A8556736]],
     [0x0F1E9787717360BC, 0xBFE3DBAAFA63A5FF, 0x5EBEA155E0ABBD08, 0xE9F00F4759EA3364, 0x3B3C34CD2255E275]) =
    ([[0x08448FDD5E4B8A93, 0x019F0FB910EFF0BB, 0xF1B34B6D3A4091C0, 0xD57A4E2933367DA4, 0x07E09F4E2500A6A0],
     [0xAA1E2ECF61FC269D, 0x404C44702E19964D, 0x72840177D24C4397, 0xE7E1DECEAC082180, 0xFBC3109F994B2B83],
     [0x8DC8D31B64E087CF, 0xDCE1EDC4CE2E1DDB, 0x1107ECF880808B80, 0x54C6822EB2D19B12, 0x9241283B174F6D9E],
     [0xF2450EF77269619F, 0x6F06FC367FF50489, 0x9B14600031BC78E1, 0xC82ED0D205A2C2E5, 0x9488A55B7FA774D1],
     [0xDEBC303CF087F7FA, 0xED2FF6D68765A2B3, 0xA880F3045700B30B, 0xE19BED84072FA328, 0xDBB776B5E68F7026]],
     [0xCC3C311DC007B6F6, 0xA83CFA5E874AA643, 0xB2A4E377B7C0E30C, 0xE593EC8C072F25F8, 0xFBB7BCF7E1C77027])"
  by (simp add: keccak_f_round_def theta_closed rho_pi_closed chi_closed iota_closed
      round_constants_def ROTL64_def Let_def
      del: theta.simps rho_pi.simps chi.simps iota.simps)

lemma byte_0E_round_18:
  "keccak_f_round 18
    ([[0x08448FDD5E4B8A93, 0x019F0FB910EFF0BB, 0xF1B34B6D3A4091C0, 0xD57A4E2933367DA4, 0x07E09F4E2500A6A0],
     [0xAA1E2ECF61FC269D, 0x404C44702E19964D, 0x72840177D24C4397, 0xE7E1DECEAC082180, 0xFBC3109F994B2B83],
     [0x8DC8D31B64E087CF, 0xDCE1EDC4CE2E1DDB, 0x1107ECF880808B80, 0x54C6822EB2D19B12, 0x9241283B174F6D9E],
     [0xF2450EF77269619F, 0x6F06FC367FF50489, 0x9B14600031BC78E1, 0xC82ED0D205A2C2E5, 0x9488A55B7FA774D1],
     [0xDEBC303CF087F7FA, 0xED2FF6D68765A2B3, 0xA880F3045700B30B, 0xE19BED84072FA328, 0xDBB776B5E68F7026]],
     [0xCC3C311DC007B6F6, 0xA83CFA5E874AA643, 0xB2A4E377B7C0E30C, 0xE593EC8C072F25F8, 0xFBB7BCF7E1C77027]) =
    ([[0x7F2CAE8B7C3E44FD, 0x97FDD177FF33CEBD, 0x38F90A0AC2995E12, 0xA089D9735D17F654, 0x70FADEA329644EAA],
     [0xE0925070C3828938, 0x4AF8546BEA0A3DDB, 0xD116D63072FE6D64, 0x833E5784A8215E45, 0x4D496595C03882BF],
     [0x837901EDED65F2CB, 0xA5FEA941B0F49FFC, 0xC039798B773DB5BF, 0x366350E6BEADB25D, 0x670FE0EAB66B0A6C],
     [0xAEE0ABFC1266F329, 0xF4D71C0B73403C98, 0x0B292C0FD07D5063, 0xED21B9506412BCED, 0x911581332F6D46ED],
     [0x77062E43B4BF4008, 0x94A59E93D063729D, 0xBB5816CCBF7FBDD7, 0xE033DFD4CF4552E9, 0x34B316E10AB4DD07]],
     [0x5C5E2E2F9B334048, 0x94827F81906330BD, 0xAF5816EDBFCF10C5, 0xA87FF7DA5E4652A1, 0xB43347610AF4EDB2])"
  by (simp add: keccak_f_round_def theta_closed rho_pi_closed chi_closed iota_closed
      round_constants_def ROTL64_def Let_def
      del: theta.simps rho_pi.simps chi.simps iota.simps)

lemma byte_0E_round_19:
  "keccak_f_round 19
    ([[0x7F2CAE8B7C3E44FD, 0x97FDD177FF33CEBD, 0x38F90A0AC2995E12, 0xA089D9735D17F654, 0x70FADEA329644EAA],
     [0xE0925070C3828938, 0x4AF8546BEA0A3DDB, 0xD116D63072FE6D64, 0x833E5784A8215E45, 0x4D496595C03882BF],
     [0x837901EDED65F2CB, 0xA5FEA941B0F49FFC, 0xC039798B773DB5BF, 0x366350E6BEADB25D, 0x670FE0EAB66B0A6C],
     [0xAEE0ABFC1266F329, 0xF4D71C0B73403C98, 0x0B292C0FD07D5063, 0xED21B9506412BCED, 0x911581332F6D46ED],
     [0x77062E43B4BF4008, 0x94A59E93D063729D, 0xBB5816CCBF7FBDD7, 0xE033DFD4CF4552E9, 0x34B316E10AB4DD07]],
     [0x5C5E2E2F9B334048, 0x94827F81906330BD, 0xAF5816EDBFCF10C5, 0xA87FF7DA5E4652A1, 0xB43347610AF4EDB2]) =
    ([[0x60A83B0F073D555A, 0x2272CB4D73C2269E, 0x43F5475BA537040A, 0xE6E30DCC95F90227, 0xD099005E2C460926],
     [0xBA893268FC43BEC1, 0x81758F45C38D541E, 0x79869A6C96BE5733, 0xCCC9A2178B784BFE, 0x177F14324D8D4EE9],
     [0xD2632A36BB8508D3, 0x848AD28EC261C2FE, 0x7FD558D44CB7E693, 0x91ECD56535ABF2C3, 0xFB9F5BBC22FE3612],
     [0x29B96914FD13549F, 0xF34992D6A59E0F5B, 0x41B31409A19461CE, 0xF1F8C7800837250F, 0xF187B19ABA3ECAC2],
     [0x147E5CAB81FFA11F, 0xA7765629675AB247, 0x515B5EC6C4DE977A, 0xED871CC1D247F4C8, 0x80AF697DA74CF3E5]],
     [0x447F7579017BA507, 0x0FF25628757AD2C7, 0x53733DFAC5D6965F, 0xA9D708C1D274F0CA, 0x8B2F6B7DD34CA125])"
  by (simp add: keccak_f_round_def theta_closed rho_pi_closed chi_closed iota_closed
      round_constants_def ROTL64_def Let_def
      del: theta.simps rho_pi.simps chi.simps iota.simps)

lemma byte_0E_round_20:
  "keccak_f_round 20
    ([[0x60A83B0F073D555A, 0x2272CB4D73C2269E, 0x43F5475BA537040A, 0xE6E30DCC95F90227, 0xD099005E2C460926],
     [0xBA893268FC43BEC1, 0x81758F45C38D541E, 0x79869A6C96BE5733, 0xCCC9A2178B784BFE, 0x177F14324D8D4EE9],
     [0xD2632A36BB8508D3, 0x848AD28EC261C2FE, 0x7FD558D44CB7E693, 0x91ECD56535ABF2C3, 0xFB9F5BBC22FE3612],
     [0x29B96914FD13549F, 0xF34992D6A59E0F5B, 0x41B31409A19461CE, 0xF1F8C7800837250F, 0xF187B19ABA3ECAC2],
     [0x147E5CAB81FFA11F, 0xA7765629675AB247, 0x515B5EC6C4DE977A, 0xED871CC1D247F4C8, 0x80AF697DA74CF3E5]],
     [0x447F7579017BA507, 0x0FF25628757AD2C7, 0x53733DFAC5D6965F, 0xA9D708C1D274F0CA, 0x8B2F6B7DD34CA125]) =
    ([[0x0B2D5AD39AAE07A5, 0xBC4B28408CDA7EB7, 0x68F05018A34281F4, 0x1ADDD9FFEC23C6C4, 0x1D152AAAED7B2B94],
     [0xA190BD08F222ADEA, 0xB0596F9A9901BC4D, 0x8EB2CFF43022DF3B, 0xB1F5D98EE34CF3A4, 0x6DBF0B781A9D19F5],
     [0x74D087B6B4E76CBD, 0x61FBE38230227784, 0xC6A4E2C0D6BE7268, 0x767DBF7778F48BED, 0xBC9C81B2C4866B2D],
     [0xAD49B27928E97441, 0x3F89D7340F438C5D, 0x6948E132FA3C2968, 0xCFCE69E7040AFEF8, 0x3224277D8074B7AA],
     [0x9AF5382D69B379A5, 0x8A04D225A202E14C, 0x248A97E3306BC59D, 0x1E49468559FFD4B5, 0xE1BBF87D3C900A84]],
     [0xDFCD15B77DDA7734, 0x8A019221AA96C14C, 0xC538AF9B966BCFD5, 0x000D430718B5A185, 0xE1BB7A7DBE948ACC])"
  by (simp add: keccak_f_round_def theta_closed rho_pi_closed chi_closed iota_closed
      round_constants_def ROTL64_def Let_def
      del: theta.simps rho_pi.simps chi.simps iota.simps)

lemma byte_0E_round_21:
  "keccak_f_round 21
    ([[0x0B2D5AD39AAE07A5, 0xBC4B28408CDA7EB7, 0x68F05018A34281F4, 0x1ADDD9FFEC23C6C4, 0x1D152AAAED7B2B94],
     [0xA190BD08F222ADEA, 0xB0596F9A9901BC4D, 0x8EB2CFF43022DF3B, 0xB1F5D98EE34CF3A4, 0x6DBF0B781A9D19F5],
     [0x74D087B6B4E76CBD, 0x61FBE38230227784, 0xC6A4E2C0D6BE7268, 0x767DBF7778F48BED, 0xBC9C81B2C4866B2D],
     [0xAD49B27928E97441, 0x3F89D7340F438C5D, 0x6948E132FA3C2968, 0xCFCE69E7040AFEF8, 0x3224277D8074B7AA],
     [0x9AF5382D69B379A5, 0x8A04D225A202E14C, 0x248A97E3306BC59D, 0x1E49468559FFD4B5, 0xE1BBF87D3C900A84]],
     [0xDFCD15B77DDA7734, 0x8A019221AA96C14C, 0xC538AF9B966BCFD5, 0x000D430718B5A185, 0xE1BB7A7DBE948ACC]) =
    ([[0xE44D67232641DBDC, 0x3C1D7978CDE436B3, 0xF814321A291240F6, 0x9B37F55EC992A71B, 0xB428133B4B3ECF10],
     [0x3ECF6ECD649A72CE, 0xD6888883B4C53D4C, 0x9985D0650810C604, 0x1BBFFDA32554E1EC, 0x9C99E3CCCC80CAAE],
     [0x1CA5CB00FBF0688F, 0x9CF09FEB187EF47A, 0x95C87C0E72088684, 0x5DE7489470256FE6, 0xD729C963B46B4344],
     [0xEFEBB3C3CEE3F33C, 0xFD7F0454030B0BB2, 0x8B7D2E5B1178F2D1, 0x7CFA1364AA51D465, 0x23583B8398C1735E],
     [0xAEC85447F90BCC84, 0xA130D9925824E379, 0x8380E7A976627878, 0x3049B8660C564168, 0xF7453E0C80B28983]],
     [0xEA4C74665FC9DC06, 0x9971C1965939E67D, 0x45B4E031F6E2D2EA, 0x3841F804531F156C, 0xE674BF9C8082ABFA])"
  by (simp add: keccak_f_round_def theta_closed rho_pi_closed chi_closed iota_closed
      round_constants_def ROTL64_def Let_def
      del: theta.simps rho_pi.simps chi.simps iota.simps)

lemma byte_0E_round_22:
  "keccak_f_round 22
    ([[0xE44D67232641DBDC, 0x3C1D7978CDE436B3, 0xF814321A291240F6, 0x9B37F55EC992A71B, 0xB428133B4B3ECF10],
     [0x3ECF6ECD649A72CE, 0xD6888883B4C53D4C, 0x9985D0650810C604, 0x1BBFFDA32554E1EC, 0x9C99E3CCCC80CAAE],
     [0x1CA5CB00FBF0688F, 0x9CF09FEB187EF47A, 0x95C87C0E72088684, 0x5DE7489470256FE6, 0xD729C963B46B4344],
     [0xEFEBB3C3CEE3F33C, 0xFD7F0454030B0BB2, 0x8B7D2E5B1178F2D1, 0x7CFA1364AA51D465, 0x23583B8398C1735E],
     [0xAEC85447F90BCC84, 0xA130D9925824E379, 0x8380E7A976627878, 0x3049B8660C564168, 0xF7453E0C80B28983]],
     [0xEA4C74665FC9DC06, 0x9971C1965939E67D, 0x45B4E031F6E2D2EA, 0x3841F804531F156C, 0xE674BF9C8082ABFA]) =
    ([[0x199FA8F661C749AB, 0x6D5D4B88463C7F20, 0xEA8B1492F8AD61CD, 0x02283584D798ABC4, 0x038CEBFC725DAE24],
     [0xA22CF4DDA32E5C8D, 0x032FAE7AFFD038C8, 0xDAEEE5AC238FB3E3, 0x36A9956EF1C781B3, 0xF4407A752BAB42B1],
     [0xC6A1460253893858, 0x893555D4EA7955D4, 0x7166713AB720D68E, 0x0CBB5BB7A433B3AE, 0x3ECE8064D09D00C4],
     [0x6B72F4D05953659C, 0xB867A7549F7317D6, 0x28445F6D6153890A, 0x27CDA708E6C3A573, 0x6D17E493D3CF1990],
     [0x7C6054C2ED3EA1A0, 0xF41A0EE90A6385AB, 0xB131C97EF6BC6C45, 0x4AC39F2477722143, 0xFF6947D3F9192786]],
     [0x7C61D5C699AACBE0, 0xBED808E90B230489, 0x840189A47EB46EC9, 0x4AC30F2077D0E923, 0x7DF14FFAFB18238F])"
  by (simp add: keccak_f_round_def theta_closed rho_pi_closed chi_closed iota_closed
      round_constants_def ROTL64_def Let_def
      del: theta.simps rho_pi.simps chi.simps iota.simps)

lemma byte_0E_round_23:
  "keccak_f_round 23
    ([[0x199FA8F661C749AB, 0x6D5D4B88463C7F20, 0xEA8B1492F8AD61CD, 0x02283584D798ABC4, 0x038CEBFC725DAE24],
     [0xA22CF4DDA32E5C8D, 0x032FAE7AFFD038C8, 0xDAEEE5AC238FB3E3, 0x36A9956EF1C781B3, 0xF4407A752BAB42B1],
     [0xC6A1460253893858, 0x893555D4EA7955D4, 0x7166713AB720D68E, 0x0CBB5BB7A433B3AE, 0x3ECE8064D09D00C4],
     [0x6B72F4D05953659C, 0xB867A7549F7317D6, 0x28445F6D6153890A, 0x27CDA708E6C3A573, 0x6D17E493D3CF1990],
     [0x7C6054C2ED3EA1A0, 0xF41A0EE90A6385AB, 0xB131C97EF6BC6C45, 0x4AC39F2477722143, 0xFF6947D3F9192786]],
     [0x7C61D5C699AACBE0, 0xBED808E90B230489, 0x840189A47EB46EC9, 0x4AC30F2077D0E923, 0x7DF14FFAFB18238F]) =
    ([[0x0EDF8B6D43010347, 0x61A65DA0338FC29A, 0xCF5CCB825740CD35, 0x88094BF407082832, 0x5D157CA7CABCBF07],
     [0x8EF8F6E976F274CE, 0x758666C8DBC75E4C, 0x0D4A3E43692F26AC, 0xA719C87B72220DB0, 0x870B4AD06BF579EA],
     [0x7F42F1B43B10CB3A, 0xEF1C2172AD10899A, 0xA31141CC5AC56852, 0x085325922992D7B4, 0xD57F0A614993D1A7],
     [0xFF5BDB6A41ADEBE0, 0x5988A48EF247C4F8, 0x652B0C2ADD7E452B, 0x3952D3341D589E08, 0x22A4687CDA89F07C],
     [0x3E35E6762AFDA793, 0x2B2433731146ACC9, 0x9D7797ECFF8F99D4, 0xCB4AB0C470CA96E8, 0xFAD272F673D4B4B8]],
     [0xBAF622FAC664B697, 0x692C13731126A8E2, 0xADE7D4DFFD9BB1C4, 0xCB6EB0CCF4EA94EF, 0xBBDA63F762D6BCD8])"
  by (simp add: keccak_f_round_def theta_closed rho_pi_closed chi_closed iota_closed
      round_constants_def ROTL64_def Let_def
      del: theta.simps rho_pi.simps chi.simps iota.simps)

lemmas byte_0E_rounds =
  byte_0E_round_0 byte_0E_round_1 byte_0E_round_2 byte_0E_round_3 byte_0E_round_4 byte_0E_round_5
  byte_0E_round_6 byte_0E_round_7 byte_0E_round_8 byte_0E_round_9 byte_0E_round_10 byte_0E_round_11
  byte_0E_round_12 byte_0E_round_13 byte_0E_round_14 byte_0E_round_15 byte_0E_round_16 byte_0E_round_17
  byte_0E_round_18 byte_0E_round_19 byte_0E_round_20 byte_0E_round_21 byte_0E_round_22 byte_0E_round_23

lemma keccak_byte_0E:
  "keccak
     [[0x000000000000060E, 0x0000000000000000, 0x0000000000000000, 0x0000000000000000, 0x0000000000000000],
     [0x0000000000000000, 0x0000000000000000, 0x0000000000000000, 0x0000000000000000, 0x0000000000000000],
     [0x0000000000000000, 0x0000000000000000, 0x0000000000000000, 0x0000000000000000, 0x0000000000000000],
     [0x0000000000000000, 0x8000000000000000, 0x0000000000000000, 0x0000000000000000, 0x0000000000000000],
     [0x0000000000000000, 0x0000000000000000, 0x0000000000000000, 0x0000000000000000, 0x0000000000000000]] False =
    ([[0x0EDF8B6D43010347, 0x61A65DA0338FC29A, 0xCF5CCB825740CD35, 0x88094BF407082832, 0x5D157CA7CABCBF07],
     [0x8EF8F6E976F274CE, 0x758666C8DBC75E4C, 0x0D4A3E43692F26AC, 0xA719C87B72220DB0, 0x870B4AD06BF579EA],
     [0x7F42F1B43B10CB3A, 0xEF1C2172AD10899A, 0xA31141CC5AC56852, 0x085325922992D7B4, 0xD57F0A614993D1A7],
     [0xFF5BDB6A41ADEBE0, 0x5988A48EF247C4F8, 0x652B0C2ADD7E452B, 0x3952D3341D589E08, 0x22A4687CDA89F07C],
     [0x3E35E6762AFDA793, 0x2B2433731146ACC9, 0x9D7797ECFF8F99D4, 0xCB4AB0C470CA96E8, 0xFAD272F673D4B4B8]],
     [])"
proof -
  have "fold keccak_f_round [0..<24]
          ([[0x000000000000060E, 0x0000000000000000, 0x0000000000000000, 0x0000000000000000, 0x0000000000000000],
           [0x0000000000000000, 0x0000000000000000, 0x0000000000000000, 0x0000000000000000, 0x0000000000000000],
           [0x0000000000000000, 0x0000000000000000, 0x0000000000000000, 0x0000000000000000, 0x0000000000000000],
           [0x0000000000000000, 0x8000000000000000, 0x0000000000000000, 0x0000000000000000, 0x0000000000000000],
           [0x0000000000000000, 0x0000000000000000, 0x0000000000000000, 0x0000000000000000, 0x0000000000000000]],
           [0, 0, 0, 0, 0]) =
        ([[0x0EDF8B6D43010347, 0x61A65DA0338FC29A, 0xCF5CCB825740CD35, 0x88094BF407082832, 0x5D157CA7CABCBF07],
         [0x8EF8F6E976F274CE, 0x758666C8DBC75E4C, 0x0D4A3E43692F26AC, 0xA719C87B72220DB0, 0x870B4AD06BF579EA],
         [0x7F42F1B43B10CB3A, 0xEF1C2172AD10899A, 0xA31141CC5AC56852, 0x085325922992D7B4, 0xD57F0A614993D1A7],
         [0xFF5BDB6A41ADEBE0, 0x5988A48EF247C4F8, 0x652B0C2ADD7E452B, 0x3952D3341D589E08, 0x22A4687CDA89F07C],
         [0x3E35E6762AFDA793, 0x2B2433731146ACC9, 0x9D7797ECFF8F99D4, 0xCB4AB0C470CA96E8, 0xFAD272F673D4B4B8]],
         [0xBAF622FAC664B697, 0x692C13731126A8E2, 0xADE7D4DFFD9BB1C4, 0xCB6EB0CCF4EA94EF, 0xBBDA63F762D6BCD8])"
    by (simp only: upt24 fold_simps comp_apply id_apply byte_0E_rounds)
  then show ?thesis
    by (simp add: prod_eq_iff keccak_lanes keccak_quiet KECCAK_ROUNDS_def zero_row)
qed

lemma sponge_byte_0E:
  "sponge False [0x0E] (replicate 5 (replicate 5 0)) =
    ([[0x0EDF8B6D43010347, 0x61A65DA0338FC29A, 0xCF5CCB825740CD35, 0x88094BF407082832, 0x5D157CA7CABCBF07],
     [0x8EF8F6E976F274CE, 0x758666C8DBC75E4C, 0x0D4A3E43692F26AC, 0xA719C87B72220DB0, 0x870B4AD06BF579EA],
     [0x7F42F1B43B10CB3A, 0xEF1C2172AD10899A, 0xA31141CC5AC56852, 0x085325922992D7B4, 0xD57F0A614993D1A7],
     [0xFF5BDB6A41ADEBE0, 0x5988A48EF247C4F8, 0x652B0C2ADD7E452B, 0x3952D3341D589E08, 0x22A4687CDA89F07C],
     [0x3E35E6762AFDA793, 0x2B2433731146ACC9, 0x9D7797ECFF8F99D4, 0xCB4AB0C470CA96E8, 0xFAD272F673D4B4B8]],
     [])"
proof -
  have "sponge False [0x0E] (replicate 5 (replicate 5 0))
          = main_loop False [] (0x0E # replicate 199 0) 1 (replicate 5 (replicate 5 0)) []"
    by (simp add: sponge_def fread_def RATE_BYTES_def CAPACITY_BYTES_def)
  also have "\<dots> =
    ([[0x0EDF8B6D43010347, 0x61A65DA0338FC29A, 0xCF5CCB825740CD35, 0x88094BF407082832, 0x5D157CA7CABCBF07],
     [0x8EF8F6E976F274CE, 0x758666C8DBC75E4C, 0x0D4A3E43692F26AC, 0xA719C87B72220DB0, 0x870B4AD06BF579EA],
     [0x7F42F1B43B10CB3A, 0xEF1C2172AD10899A, 0xA31141CC5AC56852, 0x085325922992D7B4, 0xD57F0A614993D1A7],
     [0xFF5BDB6A41ADEBE0, 0x5988A48EF247C4F8, 0x652B0C2ADD7E452B, 0x3952D3341D589E08, 0x22A4687CDA89F07C],
     [0x3E35E6762AFDA793, 0x2B2433731146ACC9, 0x9D7797ECFF8F99D4, 0xCB4AB0C470CA96E8, 0xFAD272F673D4B4B8]],
     [])"
    by (subst main_loop.simps) (simp add: RATE_BYTES_def Let_def absorb_0E keccak_byte_0E)
  finally show ?thesis .
qed

lemma print_result_byte_0E:
  "print_result (fst (sponge False [0x0E] (replicate 5 (replicate 5 0))))
     = ''0xedf8b6d4301034761a65da0338fc29acf5ccb825740cd355d157ca7cabcbf07'' @ [newline]"
  by (simp add: sponge_byte_0E print_result_def printf_lx_def hex_digits.simps)

subsection \<open>The printed result\<close>

text \<open>
  C1: for the empty input the digest is claimed to be
  \<open>a7ffc6f8bf1ed76651c14756a061d662f580ff4de43b49fa82d80a4b80f8434a\<close> as a lower-case
  hexadecimal string. The program, run without the verbose flag on the empty file,
  prints another line: the lanes (0,0), (0,1), (0,2) and (0,4) of the final state, each
  as a hexadecimal number with its most significant digit first, after \<open>0x\<close>.
\<close>

theorem main_empty_file_output:
  "main (\<lambda>name. Some []) [''./sha3'', ''empty'']
     = (0, ''0x66d71ebff8c6ffa762d661a05647c151fa493be44dff80f5e2f36b34b7be6652'' @ [newline])"
  by (simp add: main_def sponge_empty print_result_def printf_lx_def hex_digits.simps)

text \<open>
  C2: the digest is claimed to be printed as the first four lanes of the final state,
  each as eight little-endian bytes, in 64 lower-case hexadecimal digits. On the final
  state for the empty file that rendering is the digest of the empty message, while
  the line that \<open>main\<close> prints for this state is a different string.
\<close>

theorem print_result_differs_from_digest_hex:
  "digest_hex (fst (sponge False [] (replicate 5 (replicate 5 0))))
     = ''a7ffc6f8bf1ed76651c14756a061d662f580ff4de43b49fa82d80a4b80f8434a''
   \<and> print_result (fst (sponge False [] (replicate 5 (replicate 5 0))))
     = ''0x66d71ebff8c6ffa762d661a05647c151fa493be44dff80f5e2f36b34b7be6652'' @ [newline]
   \<and> print_result (fst (sponge False [] (replicate 5 (replicate 5 0))))
     \<noteq> digest_hex (fst (sponge False [] (replicate 5 (replicate 5 0)))) @ [newline]"
  by (simp add: digest_hex_empty print_result_empty)

text \<open>
  C8: the digest is claimed to have 32 bytes, 64 hexadecimal digits, for every input.
  For the file holding the single byte 0x0E, lane (0,0) of the final state has a zero
  leading digit, which \<open>%lx\<close> does not print: the line printed has 63 digits after
  \<open>0x\<close>.
\<close>

theorem main_one_byte_file_output:
  "main (\<lambda>name. Some [0x0E]) [''./sha3'', ''one_byte'']
     = (0, ''0x'' @ ''edf8b6d4301034761a65da0338fc29acf5ccb825740cd355d157ca7cabcbf07'' @ [newline])
   \<and> length ''edf8b6d4301034761a65da0338fc29acf5ccb825740cd355d157ca7cabcbf07'' = 63"
  by (simp add: main_def sponge_byte_0E print_result_def printf_lx_def hex_digits.simps)

end
